theory Spec2Isabelle
  imports Complex_Main "HOL-Library.Word"
begin

section \<open>Video/IMU fusion controller (plugins/videoimufusion/VideoIMUFusion.cpp)\<close>

text \<open>
  The development embeds the controller of \<^verbatim>\<open>VideoIMUFusion.cpp\<close>: the two lifecycle
  payloads (\<^verbatim>\<open>StartupData\<close>, \<^verbatim>\<open>RunningData\<close>), the report callbacks and the transition
  between the two lifecycle states.

  Conventions.
  \<^item> A \<^verbatim>\<open>double\<close> is a \<open>real\<close>. The arithmetic the controller itself does on doubles
    is \<^verbatim>\<open>secondsElapsed\<close>, the test \<^verbatim>\<open>dt <= 0\<close> and the scaling \<^verbatim>\<open>*= 0.5\<close>. In
    \<^verbatim>\<open>secondsElapsed\<close> every operation that can round (the division, the conversion of the
    64-bit difference, the sum) passes through \<open>toDouble\<close>, the rounding of a real to a
    double, which is a field of \<open>External\<close>. The scaling by 0.5 is taken as exact.
  \<^item> The fields of a timestamp are machine integers: \<^verbatim>\<open>seconds\<close> a \<open>64 word\<close>,
    \<^verbatim>\<open>microseconds\<close> a \<open>32 word\<close>, both read as signed (\<open>sint\<close>). Their differences wrap,
    as two's-complement subtraction does.
  \<^item> \<^verbatim>\<open>std::size_t reports\<close> is a \<open>nat\<close>: the counter starts at 0 and the accumulator is
    discarded as soon as it reaches \<^verbatim>\<open>REQUIRED_SAMPLES\<close>, so it never wraps.
  \<^item> Everything the file calls but does not define (Eigen, the Kalman filter headers,
    the one-euro filter, the Eigen interop helpers) is a field of the record \<open>External\<close>
    that every function of the model takes as its first argument. Theorems are stated
    for every value of that record.
  \<^item> A member function that mutates its object takes the object and returns the new one.
    Calls to the Kalman filter and to the tracker output are also listed, in order, in
    the \<open>Call list\<close> a callback returns.
  \<^item> Text written to \<^verbatim>\<open>std::cout\<close> is not modelled.
  \<^item> Names are the source's. Where two classes use one member name, or a name is taken
    in HOL, a suffix or prefix tells them apart: \<open>last_ts\<close> is \<^verbatim>\<open>StartupData::last\<close>,
    \<open>m_cTr_top\<close> is \<^verbatim>\<open>VideoIMUFusion::m_cTr\<close> (\<open>m_cTr\<close> is \<^verbatim>\<open>RunningData\<close>'s),
    \<open>ori_rotation\<close> is the \<^verbatim>\<open>rotation\<close> of an orientation report, and a constructor of
    class \<^verbatim>\<open>X\<close> is \<open>X_new\<close>.
\<close>

subsection \<open>Values\<close>

record OSVR_TimeValue =
  seconds :: "64 word"
  microseconds :: "32 word"

type_synonym Vector3d = "real \<times> real \<times> real"

type_synonym Matrix3d = "Vector3d \<times> Vector3d \<times> Vector3d"

text \<open>A quaternion, components in the order w, x, y, z.\<close>

datatype Quaternion = Quaternion real real real real

text \<open>A rigid transform: its linear part and its translation.\<close>

datatype Isometry3d = Isometry3d Matrix3d Vector3d

record OSVR_PoseState =
  translation :: Vector3d
  rotation :: Quaternion

record OSVR_OrientationReport =
  ori_sensor :: int
  ori_rotation :: Quaternion

record OSVR_PoseReport =
  pose_sensor :: int
  pose :: OSVR_PoseState

subsection \<open>The Kalman filter object\<close>

text \<open>
  Modelled from the spec: the state of \<^verbatim>\<open>pose_externalized_rotation\<close> (header not in the
  sources at hand) is a 12-vector laid out as position(3), velocity(3),
  incremental-orientation(3), angular-velocity(3), a reference quaternion held beside
  it, and a 12 by 12 error covariance.
\<close>

record FilterState =
  stateVector :: "real list"
  quaternion :: Quaternion
  errorCovariance :: "real list list"

record ProcessModel =
  noiseAutocorrelation :: "real list"

record Filter =
  state :: FilterState
  processModel :: ProcessModel

record AbsoluteOrientationMeasurement =
  ori_measurement :: Quaternion
  ori_covariance :: "real list list"

record AbsolutePoseMeasurement =
  pos_measurement :: Vector3d
  pose_ori_measurement :: Quaternion
  pose_covariance :: "real list list"

text \<open>
  Modelled from the spec: \<^verbatim>\<open>position(v)\<close> is the first block of three of the state
  vector; \<^verbatim>\<open>getPosition\<close> reads it and an assignment to it writes it.
\<close>

definition position :: "real list \<Rightarrow> Vector3d" where
  "position v = (v ! 0, v ! 1, v ! 2)"

definition set_position :: "Vector3d \<Rightarrow> real list \<Rightarrow> real list" where
  "set_position p v = (case p of (a, b, c) \<Rightarrow> v[0 := a, 1 := b, 2 := c])"

text \<open>\<^verbatim>\<open>v.asDiagonal()\<close>: the square matrix with \<open>v\<close> on its diagonal, as a list of rows.\<close>

definition asDiagonal :: "real list \<Rightarrow> real list list" where
  "asDiagonal v =
     map (\<lambda>i. map (\<lambda>j. if i = j then v ! i else 0) [0..<length v]) [0..<length v]"

subsection \<open>The one-euro filter object\<close>

text \<open>
  A \<^verbatim>\<open>filters::OneEuroFilter\<close> built with default parameters is determined by the
  samples it has been fed. The object is the list of the calls of \<^verbatim>\<open>filter(dt, x)\<close> made
  on it, oldest first; its \<^verbatim>\<open>getState()\<close> is an external function of that list.
\<close>

type_synonym 'a OneEuroFilter = "(real \<times> 'a) list"

definition OneEuroFilter_new :: "'a OneEuroFilter" where
  "OneEuroFilter_new = []"

definition OneEuroFilter_filter :: "real \<Rightarrow> 'a \<Rightarrow> 'a OneEuroFilter \<Rightarrow> 'a OneEuroFilter" where
  "OneEuroFilter_filter dt x f = f @ [(dt, x)]"

subsection \<open>External operations\<close>

record External =
  iso_mul :: "Isometry3d \<Rightarrow> Isometry3d \<Rightarrow> Isometry3d"
  iso_inverse :: "Isometry3d \<Rightarrow> Isometry3d"
  iso_translation :: "Isometry3d \<Rightarrow> Vector3d"
  iso_rotation :: "Isometry3d \<Rightarrow> Matrix3d"
  iso_of_quat :: "Quaternion \<Rightarrow> Isometry3d"
  quat_of_matrix :: "Matrix3d \<Rightarrow> Quaternion"
  fromPositionOrientationScale :: "Vector3d \<Rightarrow> Quaternion \<Rightarrow> Vector3d \<Rightarrow> Isometry3d"
  fromPose :: "OSVR_PoseState \<Rightarrow> Isometry3d"
  toPose :: "Isometry3d \<Rightarrow> OSVR_PoseState"
  fromQuat :: "Quaternion \<Rightarrow> Quaternion"
  toQuat :: "Quaternion \<Rightarrow> Quaternion"
  vecToQuat :: "Vector3d \<Rightarrow> Quaternion"
  getVec4 :: "Quaternion \<Rightarrow> real list"
  defaultFilter :: Filter
  predict :: "real \<Rightarrow> Filter \<Rightarrow> Filter"
  correctOrientation :: "AbsoluteOrientationMeasurement \<Rightarrow> Filter \<Rightarrow> Filter"
  correctPose :: "AbsolutePoseMeasurement \<Rightarrow> Filter \<Rightarrow> Filter"
  vecFilterState :: "Vector3d OneEuroFilter \<Rightarrow> Vector3d"
  quatFilterState :: "Quaternion OneEuroFilter \<Rightarrow> Quaternion"
  toDouble :: "real \<Rightarrow> real"

text \<open>
  What a callback does to the outside, in order: calls of the Kalman filter's
  \<^verbatim>\<open>predict\<close> and \<^verbatim>\<open>correct\<close>, and \<^verbatim>\<open>osvrDeviceTrackerSendPoseTimestamped\<close> with the
  pose, the sensor channel and the timestamp.
\<close>

datatype Call =
    Predict real
  | CorrectOrientation AbsoluteOrientationMeasurement
  | CorrectPose AbsolutePoseMeasurement
  | SendPose OSVR_PoseState nat OSVR_TimeValue

datatype Error = RuntimeError | AssertionFailed | NullDereference

definition FUSED_SENSOR_ID :: nat where
  "FUSED_SENSOR_ID = 0"

definition TRANSFORMED_VIDEO_SENSOR_ID :: nat where
  "TRANSFORMED_VIDEO_SENSOR_ID = 1"

text \<open>
  \<^verbatim>\<open>secondsElapsed(earlier, later)\<close>. The microsecond fields are subtracted as 32-bit
  integers and the difference, which a double holds exactly, is divided by
  \<^verbatim>\<open>1000000.0\<close>; the second fields are subtracted as 64-bit integers and the difference is
  converted to a double; the two doubles are added.
\<close>

definition secondsElapsed :: "External \<Rightarrow> OSVR_TimeValue \<Rightarrow> OSVR_TimeValue \<Rightarrow> real" where
  "secondsElapsed ext earlier later =
     toDouble ext
       (toDouble ext (real_of_int (sint (microseconds later - microseconds earlier)) / 1000000) +
        toDouble ext (real_of_int (sint (seconds later - seconds earlier))))"

definition InitialStateError :: "real list" where
  "InitialStateError = [1, 1, 1, 1, 1, 1, 1, 1, 1, 1, 1, 1]"

definition IMUError :: Vector3d where
  "IMUError = (1, 1.5, 1)"

definition CameraOrientationError :: Vector3d where
  "CameraOrientationError = (1.1, 1.1, 1.1)"

definition CameraPositionError :: "real list" where
  "CameraPositionError = [1, 1, 1]"

subsection \<open>RunningData\<close>

record RunningData =
  m_filter :: Filter
  m_imuError :: "real list"
  m_cameraError :: "real list"
  m_cTr :: Isometry3d
  m_orientation :: Quaternion
  m_lastPosition :: OSVR_TimeValue
  m_lastIMU :: OSVR_TimeValue

definition takeCameraPoseToRoom :: "External \<Rightarrow> Isometry3d \<Rightarrow> OSVR_PoseState \<Rightarrow> Isometry3d" where
  "takeCameraPoseToRoom ext cTr p = iso_mul ext cTr (fromPose ext p)"

text \<open>The constructor \<^verbatim>\<open>RunningData(cTr, initialIMU, initialVideo, lastPosition, lastIMU)\<close>.\<close>

definition RunningData_new ::
  "External \<Rightarrow> Isometry3d \<Rightarrow> Quaternion \<Rightarrow> OSVR_PoseState \<Rightarrow> OSVR_TimeValue \<Rightarrow> OSVR_TimeValue
    \<Rightarrow> RunningData" where
  "RunningData_new ext cTr initialIMU initialVideo lastPosition lastIMU =
     (let roomPose = takeCameraPoseToRoom ext cTr initialVideo;
          initialState = set_position (iso_translation ext roomPose) (replicate 12 0);
          f = defaultFilter ext;
          s1 = (state f)\<lparr>stateVector := initialState\<rparr>;
          s2 = s1\<lparr>quaternion := quat_of_matrix ext (iso_rotation ext roomPose)\<rparr>;
          s3 = s2\<lparr>errorCovariance := asDiagonal InitialStateError\<rparr>;
          pm = (processModel f)
                 \<lparr>noiseAutocorrelation :=
                    map (\<lambda>a. a * 0.5) (noiseAutocorrelation (processModel f))\<rparr>
      in \<lparr>m_filter = \<lparr>state = s3, processModel = pm\<rparr>,
          m_imuError = getVec4 ext (vecToQuat ext IMUError),
          m_cameraError =
            CameraPositionError @ getVec4 ext (vecToQuat ext CameraOrientationError),
          m_cTr = cTr,
          m_orientation = fromQuat ext initialIMU,
          m_lastPosition = lastPosition,
          m_lastIMU = lastIMU\<rparr>)"

text \<open>
  \<^verbatim>\<open>preReport(timestamp, last)\<close>: \<open>last\<close> is passed by reference, so the model returns its
  new value beside the flag, the filter and the calls made.
\<close>

definition preReport ::
  "External \<Rightarrow> OSVR_TimeValue \<Rightarrow> OSVR_TimeValue \<Rightarrow> Filter
    \<Rightarrow> bool \<times> OSVR_TimeValue \<times> Filter \<times> Call list" where
  "preReport ext timestamp lastv f =
     (let dt = secondsElapsed ext lastv timestamp
      in if dt \<le> 0 then (False, lastv, f, [])
         else (True, timestamp, predict ext dt f, [Predict dt]))"

definition handleIMUReport ::
  "External \<Rightarrow> OSVR_TimeValue \<Rightarrow> OSVR_OrientationReport \<Rightarrow> RunningData
    \<Rightarrow> RunningData \<times> Call list" where
  "handleIMUReport ext timestamp report rd =
     (let rd1 = rd\<lparr>m_orientation := fromQuat ext (ori_rotation report)\<rparr>
      in case preReport ext timestamp (m_lastIMU rd1) (m_filter rd1) of
           (ok, lastv, f, calls) \<Rightarrow>
             (let rd2 = rd1\<lparr>m_lastIMU := lastv, m_filter := f\<rparr>
              in if ok then
                   (let meas = \<lparr>ori_measurement = fromQuat ext (ori_rotation report),
                                ori_covariance = asDiagonal (m_imuError rd2)\<rparr>
                    in (rd2\<lparr>m_filter := correctOrientation ext meas (m_filter rd2)\<rparr>,
                        calls @ [CorrectOrientation meas]))
                 else (rd2, calls)))"

definition handleVideoTrackerReport ::
  "External \<Rightarrow> OSVR_TimeValue \<Rightarrow> OSVR_PoseReport \<Rightarrow> RunningData
    \<Rightarrow> RunningData \<times> Call list" where
  "handleVideoTrackerReport ext timestamp report rd =
     (let roomPose = takeCameraPoseToRoom ext (m_cTr rd) (pose report)
      in case preReport ext timestamp (m_lastPosition rd) (m_filter rd) of
           (ok, lastv, f, calls) \<Rightarrow>
             (let rd2 = rd\<lparr>m_lastPosition := lastv, m_filter := f\<rparr>
              in if ok then
                   (let ori = quat_of_matrix ext (iso_rotation ext roomPose);
                        pos = iso_translation ext roomPose;
                        meas = \<lparr>pos_measurement = pos, pose_ori_measurement = ori,
                                pose_covariance = asDiagonal (m_cameraError rd2)\<rparr>
                    in (rd2\<lparr>m_filter := correctPose ext meas (m_filter rd2)\<rparr>,
                        calls @ [CorrectPose meas]))
                 else (rd2, calls)))"

definition getOrientation :: "RunningData \<Rightarrow> Quaternion" where
  "getOrientation rd = quaternion (state (m_filter rd))"

definition getPosition :: "RunningData \<Rightarrow> Vector3d" where
  "getPosition rd = position (stateVector (state (m_filter rd)))"

subsection \<open>StartupData\<close>

record StartupData =
  reports :: nat
  last_ts :: OSVR_TimeValue
  positionFilter :: "Vector3d OneEuroFilter"
  orientationFilter :: "Quaternion OneEuroFilter"

definition REQUIRED_SAMPLES :: nat where
  "REQUIRED_SAMPLES = 10"

text \<open>The constructor; \<open>now\<close> is what \<^verbatim>\<open>time::getNow()\<close> returns.\<close>

definition StartupData_new :: "OSVR_TimeValue \<Rightarrow> StartupData" where
  "StartupData_new now =
     \<lparr>reports = 0, last_ts = now,
      positionFilter = OneEuroFilter_new, orientationFilter = OneEuroFilter_new\<rparr>"

definition handleReport ::
  "External \<Rightarrow> OSVR_TimeValue \<Rightarrow> OSVR_PoseReport \<Rightarrow> Quaternion \<Rightarrow> StartupData \<Rightarrow> StartupData" where
  "handleReport ext timestamp report orientation sd =
     (let dt0 = secondsElapsed ext (last_ts sd) timestamp;
          dt = (if dt0 \<le> 0 then 1 else dt0);
          dTc = fromPose ext (pose report);
          cTr = iso_mul ext (iso_inverse ext dTc) (iso_of_quat ext (fromQuat ext orientation))
      in sd\<lparr>positionFilter :=
               OneEuroFilter_filter dt (iso_translation ext cTr) (positionFilter sd),
             orientationFilter :=
               OneEuroFilter_filter dt (quat_of_matrix ext (iso_rotation ext cTr))
                 (orientationFilter sd),
             reports := reports sd + 1,
             last_ts := timestamp\<rparr>)"

definition finished :: "StartupData \<Rightarrow> bool" where
  "finished sd = (reports sd \<ge> REQUIRED_SAMPLES)"

definition getRoomToCamera :: "External \<Rightarrow> StartupData \<Rightarrow> Isometry3d" where
  "getRoomToCamera ext sd =
     fromPositionOrientationScale ext (vecFilterState ext (positionFilter sd))
       (quatFilterState ext (orientationFilter sd)) (1, 1, 1)"

subsection \<open>The controller\<close>

datatype State = AcquiringCameraPose | Running

text \<open>
  The members of \<^verbatim>\<open>VideoIMUFusion\<close> the callbacks use. The two \<^verbatim>\<open>unique_ptr\<close> payloads are
  options (\<open>None\<close> is the null pointer); \<open>m_cTr_top\<close> is the controller's own \<^verbatim>\<open>m_cTr\<close>,
  \<open>None\<close> until it is first assigned.
\<close>

record VideoIMUFusion =
  m_state :: State
  m_cTr_top :: "Isometry3d option"
  m_startupData :: "StartupData option"
  m_runningData :: "RunningData option"

text \<open>
  What \<^verbatim>\<open>osvrGetOrientationState(m_imu, ...)\<close> and \<^verbatim>\<open>osvrGetPoseState(m_videoTracker, ...)\<close>
  return while a callback runs: \<open>None\<close> when the call does not return
  \<^verbatim>\<open>OSVR_RETURN_SUCCESS\<close>, the timestamp and the state otherwise.
\<close>

record Interfaces =
  imuInterface :: "(OSVR_TimeValue \<times> Quaternion) option"
  videoInterface :: "(OSVR_TimeValue \<times> OSVR_PoseState) option"

definition enterCameraPoseAcquisitionState :: "OSVR_TimeValue \<Rightarrow> VideoIMUFusion \<Rightarrow> VideoIMUFusion" where
  "enterCameraPoseAcquisitionState now c =
     c\<lparr>m_startupData := Some (StartupData_new now), m_state := AcquiringCameraPose\<rparr>"

text \<open>
  The constructor throws when \<^verbatim>\<open>osvrAnalysisSyncInit\<close> fails (\<open>initOk\<close> false); otherwise the
  object leaves it through \<^verbatim>\<open>enterCameraPoseAcquisitionState\<close>. \<open>s0\<close> is whatever
  \<^verbatim>\<open>m_state\<close> holds before that call.
\<close>

definition VideoIMUFusion_new :: "bool \<Rightarrow> State \<Rightarrow> OSVR_TimeValue \<Rightarrow> Error + VideoIMUFusion" where
  "VideoIMUFusion_new initOk s0 now =
     (if \<not> initOk then Inl RuntimeError
      else Inr (enterCameraPoseAcquisitionState now
             \<lparr>m_state = s0, m_cTr_top = None, m_startupData = None, m_runningData = None\<rparr>))"

text \<open>
  \<^verbatim>\<open>enterRunningState(cTr)\<close>. A \<^verbatim>\<open>BOOST_ASSERT_MSG\<close> that fails ends the run with
  \<open>AssertionFailed\<close>, as in a build that keeps assertions.
\<close>

definition enterRunningState ::
  "External \<Rightarrow> Interfaces \<Rightarrow> Isometry3d \<Rightarrow> VideoIMUFusion \<Rightarrow> Error + VideoIMUFusion" where
  "enterRunningState ext env cTr c =
     (let c1 = c\<lparr>m_cTr_top := Some cTr\<rparr>;
          c2 = c1\<lparr>m_state := Running\<rparr>
      in case imuInterface env of
           None \<Rightarrow> Inl AssertionFailed
         | Some (oriTs, imuState) \<Rightarrow>
             (case videoInterface env of
                None \<Rightarrow> Inl AssertionFailed
              | Some (posTs, videoState) \<Rightarrow>
                  Inr (c2\<lparr>m_runningData :=
                            Some (RunningData_new ext cTr imuState videoState posTs oriTs),
                          m_startupData := None\<rparr>)))"

definition handleVideoTrackerDataDuringStartup ::
  "External \<Rightarrow> Interfaces \<Rightarrow> OSVR_TimeValue \<Rightarrow> OSVR_PoseReport \<Rightarrow> VideoIMUFusion
    \<Rightarrow> Error + VideoIMUFusion \<times> Call list" where
  "handleVideoTrackerDataDuringStartup ext env timestamp report c =
     (case imuInterface env of
        None \<Rightarrow> Inr (c, [])
      | Some (lastIMU, imuState) \<Rightarrow>
          (case m_startupData c of
             None \<Rightarrow> Inl NullDereference
           | Some sd \<Rightarrow>
               (let sd1 = handleReport ext timestamp report imuState sd;
                    c1 = c\<lparr>m_startupData := Some sd1\<rparr>
                in if finished sd1 then
                     (case enterRunningState ext env (getRoomToCamera ext sd1) c1 of
                        Inl e \<Rightarrow> Inl e
                      | Inr c2 \<Rightarrow> Inr (c2, []))
                   else Inr (c1, []))))"

definition handleIMUData ::
  "External \<Rightarrow> OSVR_TimeValue \<Rightarrow> OSVR_OrientationReport \<Rightarrow> VideoIMUFusion
    \<Rightarrow> Error + VideoIMUFusion \<times> Call list" where
  "handleIMUData ext timestamp report c =
     (if m_state c \<noteq> Running then Inr (c, [])
      else case m_runningData c of
             None \<Rightarrow> Inl NullDereference
           | Some rd \<Rightarrow>
               (case handleIMUReport ext timestamp report rd of
                  (rd1, calls) \<Rightarrow>
                    (let newPose = \<lparr>translation = getPosition rd1,
                                    rotation = toQuat ext (getOrientation rd1)\<rparr>
                     in Inr (c\<lparr>m_runningData := Some rd1\<rparr>,
                             calls @ [SendPose newPose FUSED_SENSOR_ID timestamp]))))"

definition handleVideoTrackerData ::
  "External \<Rightarrow> Interfaces \<Rightarrow> OSVR_TimeValue \<Rightarrow> OSVR_PoseReport \<Rightarrow> VideoIMUFusion
    \<Rightarrow> Error + VideoIMUFusion \<times> Call list" where
  "handleVideoTrackerData ext env timestamp report c =
     (if m_state c = AcquiringCameraPose then
        handleVideoTrackerDataDuringStartup ext env timestamp report c
      else case m_runningData c of
             None \<Rightarrow> Inl NullDereference
           | Some rd \<Rightarrow>
               (case handleVideoTrackerReport ext timestamp report rd of
                  (rd1, calls) \<Rightarrow>
                    (let newPose = \<lparr>translation = getPosition rd1,
                                    rotation = toQuat ext (getOrientation rd1)\<rparr>;
                         videoPose = takeCameraPoseToRoom ext (m_cTr rd1) (pose report);
                         newDebugPose = toPose ext videoPose
                     in Inr (c\<lparr>m_runningData := Some rd1\<rparr>,
                             calls @ [SendPose newPose FUSED_SENSOR_ID timestamp,
                                      SendPose newDebugPose TRANSFORMED_VIDEO_SENSOR_ID
                                        timestamp]))))"

subsection \<open>Runs of callbacks\<close>

text \<open>
  One callback invocation: the report delivered, with what the two interface queries
  would return while it runs.
\<close>

datatype Report =
    OrientationReport OSVR_TimeValue OSVR_OrientationReport
  | PoseReport OSVR_TimeValue OSVR_PoseReport

fun callback ::
  "External \<Rightarrow> Interfaces \<times> Report \<Rightarrow> VideoIMUFusion \<Rightarrow> Error + VideoIMUFusion \<times> Call list" where
  "callback ext (env, OrientationReport ts r) c = handleIMUData ext ts r c"
| "callback ext (env, PoseReport ts r) c = handleVideoTrackerData ext env ts r c"

text \<open>Callbacks run one after the other; the first failure ends the run.\<close>

fun run ::
  "External \<Rightarrow> VideoIMUFusion \<Rightarrow> (Interfaces \<times> Report) list
    \<Rightarrow> Error + VideoIMUFusion \<times> Call list" where
  "run ext c [] = Inr (c, [])"
| "run ext c (i # is) =
     (case callback ext i c of
        Inl e \<Rightarrow> Inl e
      | Inr (c1, calls) \<Rightarrow>
          (case run ext c1 is of
             Inl e \<Rightarrow> Inl e
           | Inr (c2, calls2) \<Rightarrow> Inr (c2, calls @ calls2)))"

text \<open>The controller as the constructor leaves it when it does not throw.\<close>

definition started :: "OSVR_TimeValue \<Rightarrow> VideoIMUFusion" where
  "started now =
     enterCameraPoseAcquisitionState now
       \<lparr>m_state = AcquiringCameraPose, m_cTr_top = None, m_startupData = None,
        m_runningData = None\<rparr>"

subsection \<open>One interpretation of the external operations\<close>

text \<open>
  The theorems below hold for every value of \<open>External\<close>. To run the model on concrete
  reports one value is fixed here: rigid transforms computed exactly over the reals,
  quaternion conversions that copy the four components, a one-euro filter that returns
  the sample fed last, a filter whose \<open>predict\<close> advances position by velocity and
  whose \<open>correct\<close> adopts the measurement, and a rounding that changes nothing (the
  elapsed times of the runs below, 0, 1/2, 1 and 3/2, are doubles). It stands for no
  particular build of the libraries.
\<close>

definition mat_vec :: "Matrix3d \<Rightarrow> Vector3d \<Rightarrow> Vector3d" where
  "mat_vec m v =
     (case m of ((a, b, c), (d, e, f), (g, h, i)) \<Rightarrow>
        case v of (p, q, r) \<Rightarrow>
          (a * p + b * q + c * r, d * p + e * q + f * r, g * p + h * q + i * r))"

definition mat_transpose :: "Matrix3d \<Rightarrow> Matrix3d" where
  "mat_transpose m =
     (case m of ((a, b, c), (d, e, f), (g, h, i)) \<Rightarrow> ((a, d, g), (b, e, h), (c, f, i)))"

definition mat_mul :: "Matrix3d \<Rightarrow> Matrix3d \<Rightarrow> Matrix3d" where
  "mat_mul m n =
     (case mat_transpose n of (c1, c2, c3) \<Rightarrow>
        mat_transpose (mat_vec m c1, mat_vec m c2, mat_vec m c3))"

definition vec_add :: "Vector3d \<Rightarrow> Vector3d \<Rightarrow> Vector3d" where
  "vec_add u v = (case u of (a, b, c) \<Rightarrow> case v of (p, q, r) \<Rightarrow> (a + p, b + q, c + r))"

definition vec_neg :: "Vector3d \<Rightarrow> Vector3d" where
  "vec_neg u = (case u of (a, b, c) \<Rightarrow> (- a, - b, - c))"

definition toRotationMatrix :: "Quaternion \<Rightarrow> Matrix3d" where
  "toRotationMatrix q =
     (case q of Quaternion w x y z \<Rightarrow>
        ((1 - 2 * (y * y + z * z), 2 * (x * y - w * z), 2 * (x * z + w * y)),
         (2 * (x * y + w * z), 1 - 2 * (x * x + z * z), 2 * (y * z - w * x)),
         (2 * (x * z - w * y), 2 * (y * z + w * x), 1 - 2 * (x * x + y * y))))"

definition rotationToQuaternion :: "Matrix3d \<Rightarrow> Quaternion" where
  "rotationToQuaternion m =
     (case m of ((a, b, c), (d, e, f), (g, h, i)) \<Rightarrow>
        if a + e + i > 0 then
          (let s = sqrt (a + e + i + 1)
           in Quaternion (s / 2) ((h - f) / (2 * s)) ((c - g) / (2 * s)) ((d - b) / (2 * s)))
        else if e \<le> a \<and> i \<le> a then
          (let s = sqrt (a - e - i + 1)
           in Quaternion ((h - f) / (2 * s)) (s / 2) ((d + b) / (2 * s)) ((g + c) / (2 * s)))
        else if i \<le> e then
          (let s = sqrt (e - i - a + 1)
           in Quaternion ((c - g) / (2 * s)) ((b + d) / (2 * s)) (s / 2) ((h + f) / (2 * s)))
        else
          (let s = sqrt (i - a - e + 1)
           in Quaternion ((d - b) / (2 * s)) ((c + g) / (2 * s)) ((f + h) / (2 * s)) (s / 2)))"

definition sample_predict :: "real \<Rightarrow> Filter \<Rightarrow> Filter" where
  "sample_predict dt f =
     (let v = stateVector (state f)
      in f\<lparr>state := (state f)
             \<lparr>stateVector :=
                v[0 := v ! 0 + dt * v ! 3, 1 := v ! 1 + dt * v ! 4, 2 := v ! 2 + dt * v ! 5]\<rparr>\<rparr>)"

definition sample_ext :: External where
  "sample_ext =
     \<lparr>iso_mul = (\<lambda>a b. case a of Isometry3d r1 t1 \<Rightarrow> case b of Isometry3d r2 t2 \<Rightarrow>
                   Isometry3d (mat_mul r1 r2) (vec_add (mat_vec r1 t2) t1)),
      iso_inverse = (\<lambda>a. case a of Isometry3d r t \<Rightarrow>
                   Isometry3d (mat_transpose r) (vec_neg (mat_vec (mat_transpose r) t))),
      iso_translation = (\<lambda>a. case a of Isometry3d r t \<Rightarrow> t),
      iso_rotation = (\<lambda>a. case a of Isometry3d r t \<Rightarrow> r),
      iso_of_quat = (\<lambda>q. Isometry3d (toRotationMatrix q) (0, 0, 0)),
      quat_of_matrix = rotationToQuaternion,
      fromPositionOrientationScale = (\<lambda>p q s. case s of (sx, sy, sz) \<Rightarrow>
                   Isometry3d (mat_mul (toRotationMatrix q) ((sx, 0, 0), (0, sy, 0), (0, 0, sz))) p),
      fromPose = (\<lambda>p. Isometry3d (toRotationMatrix (rotation p)) (translation p)),
      toPose = (\<lambda>a. case a of Isometry3d r t \<Rightarrow>
                   \<lparr>translation = t, rotation = rotationToQuaternion r\<rparr>),
      fromQuat = (\<lambda>q. q),
      toQuat = (\<lambda>q. q),
      vecToQuat = (\<lambda>v. case v of (a, b, c) \<Rightarrow> Quaternion 1 (a / 2) (b / 2) (c / 2)),
      getVec4 = (\<lambda>q. case q of Quaternion w x y z \<Rightarrow> [w, x, y, z]),
      defaultFilter =
        \<lparr>state = \<lparr>stateVector = replicate 12 0, quaternion = Quaternion 1 0 0 0,
                   errorCovariance = asDiagonal (replicate 12 1)\<rparr>,
         processModel = \<lparr>noiseAutocorrelation = [1, 1, 1, 1, 1, 1]\<rparr>\<rparr>,
      predict = sample_predict,
      correctOrientation = (\<lambda>m f. f\<lparr>state := (state f)\<lparr>quaternion := ori_measurement m\<rparr>\<rparr>),
      correctPose = (\<lambda>m f. f\<lparr>state := (state f)
                   \<lparr>stateVector := set_position (pos_measurement m) (stateVector (state f)),
                    quaternion := pose_ori_measurement m\<rparr>\<rparr>),
      vecFilterState = (\<lambda>h. if h = [] then (0, 0, 0) else snd (last h)),
      quatFilterState = (\<lambda>h. if h = [] then Quaternion 1 0 0 0 else snd (last h)),
      toDouble = (\<lambda>a. a)\<rparr>"

text \<open>Concrete reports for the runs below.\<close>

definition tv :: "64 word \<Rightarrow> 32 word \<Rightarrow> OSVR_TimeValue" where
  "tv s u = \<lparr>seconds = s, microseconds = u\<rparr>"

definition identityQuat :: Quaternion where
  "identityQuat = Quaternion 1 0 0 0"

definition imuReport :: OSVR_OrientationReport where
  "imuReport = \<lparr>ori_sensor = 0, ori_rotation = identityQuat\<rparr>"

definition videoPose :: OSVR_PoseState where
  "videoPose = \<lparr>translation = (1, 0, 0), rotation = identityQuat\<rparr>"

definition videoReport :: OSVR_PoseReport where
  "videoReport = \<lparr>pose_sensor = 0, pose = videoPose\<rparr>"

text \<open>Both interfaces hold a state, stamped \<open>s\<close> seconds.\<close>

definition bothAt :: "64 word \<Rightarrow> Interfaces" where
  "bothAt s = \<lparr>imuInterface = Some (tv s 0, identityQuat),
               videoInterface = Some (tv s 0, videoPose)\<rparr>"

definition noIMU :: Interfaces where
  "noIMU = \<lparr>imuInterface = None, videoInterface = Some (tv 100 0, videoPose)\<rparr>"

text \<open>A running payload seeded at 100 s, and a controller that holds it.\<close>

definition rd100 :: RunningData where
  "rd100 =
     RunningData_new sample_ext (Isometry3d ((1, 0, 0), (0, 1, 0), (0, 0, 1)) (0, 2, 0))
       identityQuat videoPose (tv 100 0) (tv 100 0)"

definition running100 :: VideoIMUFusion where
  "running100 =
     \<lparr>m_state = Running,
      m_cTr_top = Some (Isometry3d ((1, 0, 0), (0, 1, 0), (0, 0, 1)) (0, 2, 0)),
      m_startupData = None, m_runningData = Some rd100\<rparr>"

text \<open>Ten pose reports, one per second from 101 s, each with both interfaces available.\<close>

definition tenPoseReports :: "(Interfaces \<times> Report) list" where
  "tenPoseReports = map (\<lambda>k. (bothAt k, PoseReport (tv k 0) videoReport)) [101, 102, 103, 104, 105, 106, 107, 108, 109, 110]"

subsection \<open>Vocabulary of the properties\<close>

text \<open>
  Selections from the calls of a callback, the timestamp of a report, and the two
  conditions on a callback invocation that the lifecycle depends on: a pose report that
  finds an orientation state, and a pose report that finds a pose state.
\<close>

fun isFusedPose :: "Call \<Rightarrow> bool" where
  "isFusedPose (SendPose p ch ts) = (ch = FUSED_SENSOR_ID)"
| "isFusedPose _ = False"

fun isFilterCall :: "Call \<Rightarrow> bool" where
  "isFilterCall (SendPose p ch ts) = False"
| "isFilterCall _ = True"

fun reportTimestamp :: "Report \<Rightarrow> OSVR_TimeValue" where
  "reportTimestamp (OrientationReport ts r) = ts"
| "reportTimestamp (PoseReport ts r) = ts"

text \<open>A report that \<^verbatim>\<open>preReport\<close> turns away: the elapsed time on its sensor's clock is not positive.\<close>

fun skipped :: "External \<Rightarrow> RunningData \<Rightarrow> Report \<Rightarrow> bool" where
  "skipped ext rd (OrientationReport ts r) = (secondsElapsed ext (m_lastIMU rd) ts \<le> 0)"
| "skipped ext rd (PoseReport ts r) = (secondsElapsed ext (m_lastPosition rd) ts \<le> 0)"

text \<open>What \<^verbatim>\<open>predict\<close> then \<^verbatim>\<open>correct\<close> make of the filter for a report that is not turned away.\<close>

fun corrected :: "External \<Rightarrow> RunningData \<Rightarrow> Report \<Rightarrow> Filter" where
  "corrected ext rd (OrientationReport ts r) =
     correctOrientation ext
       \<lparr>ori_measurement = fromQuat ext (ori_rotation r),
        ori_covariance = asDiagonal (m_imuError rd)\<rparr>
       (predict ext (secondsElapsed ext (m_lastIMU rd) ts) (m_filter rd))"
| "corrected ext rd (PoseReport ts r) =
     correctPose ext
       \<lparr>pos_measurement = iso_translation ext (iso_mul ext (m_cTr rd) (fromPose ext (pose r))),
        pose_ori_measurement =
          quat_of_matrix ext (iso_rotation ext (iso_mul ext (m_cTr rd) (fromPose ext (pose r)))),
        pose_covariance = asDiagonal (m_cameraError rd)\<rparr>
       (predict ext (secondsElapsed ext (m_lastPosition rd) ts) (m_filter rd))"

fun poseWithIMU :: "Interfaces \<times> Report \<Rightarrow> bool" where
  "poseWithIMU (env, PoseReport ts r) = (imuInterface env \<noteq> None)"
| "poseWithIMU (env, OrientationReport ts r) = False"

fun poseStateAvailable :: "Interfaces \<times> Report \<Rightarrow> bool" where
  "poseStateAvailable (env, PoseReport ts r) = (videoInterface env \<noteq> None)"
| "poseStateAvailable (env, OrientationReport ts r) = True"

definition samplesAccepted :: "(Interfaces \<times> Report) list \<Rightarrow> nat" where
  "samplesAccepted ins = length (filter poseWithIMU ins)"

text \<open>
  The lifecycle after \<open>n\<close> pose reports that found an orientation state: below the
  threshold the controller acquires, holds the accumulator with counter \<open>n\<close> and no
  running payload; from the threshold on it runs and holds only the running payload.
\<close>

definition lifecycle :: "nat \<Rightarrow> VideoIMUFusion \<Rightarrow> bool" where
  "lifecycle n c =
     (case m_state c of
        AcquiringCameraPose \<Rightarrow>
          n < REQUIRED_SAMPLES \<and> m_runningData c = None \<and>
          map_option reports (m_startupData c) = Some n
      | Running \<Rightarrow>
          REQUIRED_SAMPLES \<le> n \<and> m_startupData c = None \<and> m_runningData c \<noteq> None)"

text \<open>
  The controller after nine of the ten pose reports, and after the tenth, under
  \<open>sample_ext\<close>.
\<close>

definition acquired9 :: VideoIMUFusion where
  "acquired9 =
     \<lparr>m_state = AcquiringCameraPose, m_cTr_top = None,
      m_startupData =
        Some \<lparr>reports = 9, last_ts = tv 109 0,
              positionFilter = replicate 9 (1, (- 1, 0, 0)),
              orientationFilter = replicate 9 (1, identityQuat)\<rparr>,
      m_runningData = None\<rparr>"

definition running110 :: VideoIMUFusion where
  "running110 =
     \<lparr>m_state = Running,
      m_cTr_top = Some (Isometry3d ((1, 0, 0), (0, 1, 0), (0, 0, 1)) (- 1, 0, 0)),
      m_startupData = None,
      m_runningData =
        Some (RunningData_new sample_ext
                (Isometry3d ((1, 0, 0), (0, 1, 0), (0, 0, 1)) (- 1, 0, 0))
                identityQuat videoPose (tv 110 0) (tv 110 0))\<rparr>"

text \<open>
  A tenth pose report that puts the device four units along x, interfaces whose pose
  state, stamped 110 s, is three units along x, and the controller that this report
  leaves when it finds them.
\<close>

definition videoReport4 :: OSVR_PoseReport where
  "videoReport4 =
     \<lparr>pose_sensor = 0, pose = \<lparr>translation = (4, 0, 0), rotation = identityQuat\<rparr>\<rparr>"

definition movedAt110 :: Interfaces where
  "movedAt110 =
     \<lparr>imuInterface = Some (tv 110 0, identityQuat),
      videoInterface = Some (tv 110 0, \<lparr>translation = (3, 0, 0), rotation = identityQuat\<rparr>)\<rparr>"

definition seeded110 :: VideoIMUFusion where
  "seeded110 =
     \<lparr>m_state = Running,
      m_cTr_top = Some (Isometry3d ((1, 0, 0), (0, 1, 0), (0, 0, 1)) (- 4, 0, 0)),
      m_startupData = None,
      m_runningData =
        Some (RunningData_new sample_ext
                (Isometry3d ((1, 0, 0), (0, 1, 0), (0, 0, 1)) (- 4, 0, 0))
                identityQuat \<lparr>translation = (3, 0, 0), rotation = identityQuat\<rparr>
                (tv 110 0) (tv 110 0))\<rparr>"

section \<open>Lemmas\<close>

lemmas sample_defs = sample_ext_def sample_predict_def rotationToQuaternion_def toRotationMatrix_def
  mat_mul_def mat_vec_def mat_transpose_def vec_add_def vec_neg_def tv_def identityQuat_def imuReport_def
  videoPose_def videoReport_def bothAt_def noIMU_def

lemmas model_defs = RunningData_new_def takeCameraPoseToRoom_def set_position_def position_def
  preReport_def handleIMUReport_def handleVideoTrackerReport_def getOrientation_def getPosition_def
  StartupData_new_def handleReport_def finished_def getRoomToCamera_def REQUIRED_SAMPLES_def
  enterCameraPoseAcquisitionState_def enterRunningState_def handleVideoTrackerDataDuringStartup_def
  handleIMUData_def handleVideoTrackerData_def started_def secondsElapsed_def
  OneEuroFilter_new_def OneEuroFilter_filter_def FUSED_SENSOR_ID_def TRANSFORMED_VIDEO_SENSOR_ID_def
  InitialStateError_def IMUError_def CameraOrientationError_def CameraPositionError_def

lemma handleIMUData_idle:
  "m_state c \<noteq> Running \<Longrightarrow> handleIMUData ext ts r c = Inr (c, [])"
  by (simp add: handleIMUData_def)

lemma handleIMUData_running:
  "m_state c = Running \<Longrightarrow> m_runningData c = Some rd \<Longrightarrow>
   handleIMUData ext ts r c =
     Inr (c\<lparr>m_runningData := Some (fst (handleIMUReport ext ts r rd))\<rparr>,
          snd (handleIMUReport ext ts r rd) @
          [SendPose \<lparr>translation = getPosition (fst (handleIMUReport ext ts r rd)),
                     rotation = toQuat ext (getOrientation (fst (handleIMUReport ext ts r rd)))\<rparr>
             FUSED_SENSOR_ID ts])"
  by (simp add: handleIMUData_def Let_def split: prod.splits)

lemma handleVideoTrackerData_running:
  "m_state c = Running \<Longrightarrow> m_runningData c = Some rd \<Longrightarrow>
   handleVideoTrackerData ext env ts r c =
     Inr (c\<lparr>m_runningData := Some (fst (handleVideoTrackerReport ext ts r rd))\<rparr>,
          snd (handleVideoTrackerReport ext ts r rd) @
          [SendPose \<lparr>translation = getPosition (fst (handleVideoTrackerReport ext ts r rd)),
                     rotation = toQuat ext (getOrientation (fst (handleVideoTrackerReport ext ts r rd)))\<rparr>
             FUSED_SENSOR_ID ts,
           SendPose (toPose ext (takeCameraPoseToRoom ext
                       (m_cTr (fst (handleVideoTrackerReport ext ts r rd))) (pose r)))
             TRANSFORMED_VIDEO_SENSOR_ID ts])"
  by (simp add: handleVideoTrackerData_def Let_def split: prod.splits)

lemma handleIMUReport_skip:
  "secondsElapsed ext (m_lastIMU rd) ts \<le> 0 \<Longrightarrow>
   handleIMUReport ext ts r rd = (rd\<lparr>m_orientation := fromQuat ext (ori_rotation r)\<rparr>, [])"
  by (simp add: handleIMUReport_def preReport_def Let_def)

lemma handleIMUReport_accept:
  "0 < secondsElapsed ext (m_lastIMU rd) ts \<Longrightarrow>
   handleIMUReport ext ts r rd =
     (rd\<lparr>m_orientation := fromQuat ext (ori_rotation r), m_lastIMU := ts,
         m_filter :=
           correctOrientation ext
             \<lparr>ori_measurement = fromQuat ext (ori_rotation r),
              ori_covariance = asDiagonal (m_imuError rd)\<rparr>
             (predict ext (secondsElapsed ext (m_lastIMU rd) ts) (m_filter rd))\<rparr>,
      [Predict (secondsElapsed ext (m_lastIMU rd) ts),
       CorrectOrientation
         \<lparr>ori_measurement = fromQuat ext (ori_rotation r),
          ori_covariance = asDiagonal (m_imuError rd)\<rparr>])"
  by (simp add: handleIMUReport_def preReport_def Let_def)

lemma handleVideoTrackerReport_skip:
  "secondsElapsed ext (m_lastPosition rd) ts \<le> 0 \<Longrightarrow>
   handleVideoTrackerReport ext ts r rd = (rd, [])"
  by (simp add: handleVideoTrackerReport_def preReport_def Let_def)

lemma handleVideoTrackerReport_accept:
  "0 < secondsElapsed ext (m_lastPosition rd) ts \<Longrightarrow>
   handleVideoTrackerReport ext ts r rd =
     (rd\<lparr>m_lastPosition := ts,
         m_filter :=
           correctPose ext
             \<lparr>pos_measurement = iso_translation ext (takeCameraPoseToRoom ext (m_cTr rd) (pose r)),
              pose_ori_measurement =
                quat_of_matrix ext (iso_rotation ext (takeCameraPoseToRoom ext (m_cTr rd) (pose r))),
              pose_covariance = asDiagonal (m_cameraError rd)\<rparr>
             (predict ext (secondsElapsed ext (m_lastPosition rd) ts) (m_filter rd))\<rparr>,
      [Predict (secondsElapsed ext (m_lastPosition rd) ts),
       CorrectPose
         \<lparr>pos_measurement = iso_translation ext (takeCameraPoseToRoom ext (m_cTr rd) (pose r)),
          pose_ori_measurement =
            quat_of_matrix ext (iso_rotation ext (takeCameraPoseToRoom ext (m_cTr rd) (pose r))),
          pose_covariance = asDiagonal (m_cameraError rd)\<rparr>])"
  by (simp add: handleVideoTrackerReport_def preReport_def Let_def)

lemma startup_no_imu:
  "m_state c = AcquiringCameraPose \<Longrightarrow> imuInterface env = None \<Longrightarrow>
   handleVideoTrackerData ext env ts r c = Inr (c, [])"
  by (simp add: handleVideoTrackerData_def handleVideoTrackerDataDuringStartup_def)

lemma startup_sample:
  "m_state c = AcquiringCameraPose \<Longrightarrow> imuInterface env = Some (its, q) \<Longrightarrow>
   m_startupData c = Some sd \<Longrightarrow>
   handleVideoTrackerData ext env ts r c =
     (if finished (handleReport ext ts r q sd) then
        (case videoInterface env of
           None \<Rightarrow> Inl AssertionFailed
         | Some (posTs, video) \<Rightarrow>
             Inr (\<lparr>m_state = Running,
                   m_cTr_top = Some (getRoomToCamera ext (handleReport ext ts r q sd)),
                   m_startupData = None,
                   m_runningData =
                     Some (RunningData_new ext (getRoomToCamera ext (handleReport ext ts r q sd))
                             q video posTs its)\<rparr>, []))
      else Inr (c\<lparr>m_startupData := Some (handleReport ext ts r q sd)\<rparr>, []))"
  by (cases c) (simp add: handleVideoTrackerData_def handleVideoTrackerDataDuringStartup_def
      enterRunningState_def Let_def split: option.splits)

lemma reports_handleReport: "reports (handleReport ext ts r q sd) = reports sd + 1"
  by (simp add: handleReport_def Let_def)

lemma callback_lifecycle:
  assumes "lifecycle n c" and "callback ext i c = Inr (c', calls)"
  shows "lifecycle (n + (if poseWithIMU i then 1 else 0)) c'"
proof (cases i)
  case (Pair env rep)
  show ?thesis
  proof (cases rep)
    case (OrientationReport ts r)
    show ?thesis
    proof (cases "m_state c")
      case AcquiringCameraPose
      with assms Pair OrientationReport show ?thesis
        by (simp add: handleIMUData_idle)
    next
      case Running
      with assms(1) obtain rd where rd: "m_runningData c = Some rd"
        by (auto simp: lifecycle_def)
      from assms Pair OrientationReport Running rd show ?thesis
        by (auto simp: handleIMUData_running lifecycle_def)
    qed
  next
    case (PoseReport ts r)
    show ?thesis
    proof (cases "m_state c")
      case AcquiringCameraPose
      show ?thesis
      proof (cases "imuInterface env")
        case None
        with assms Pair PoseReport AcquiringCameraPose show ?thesis
          by (simp add: startup_no_imu)
      next
        case (Some a)
        obtain its q where a: "a = (its, q)" by (cases a)
        from assms(1) AcquiringCameraPose obtain sd where
          sd: "m_startupData c = Some sd" "reports sd = n" "n < REQUIRED_SAMPLES"
          "m_runningData c = None"
          by (auto simp: lifecycle_def)
        from assms(2) Pair PoseReport AcquiringCameraPose Some a sd show ?thesis
          by (auto simp: startup_sample lifecycle_def finished_def reports_handleReport
              split: if_splits option.splits)
      qed
    next
      case Running
      with assms(1) obtain rd where rd: "m_runningData c = Some rd"
        by (auto simp: lifecycle_def)
      from assms Pair PoseReport Running rd show ?thesis
        by (auto simp: handleVideoTrackerData_running lifecycle_def)
    qed
  qed
qed

lemma run_lifecycle:
  "lifecycle n c \<Longrightarrow> run ext c ins = Inr (c', calls) \<Longrightarrow>
   lifecycle (n + samplesAccepted ins) c'"
proof (induction ins arbitrary: n c calls)
  case Nil
  then show ?case by (simp add: samplesAccepted_def)
next
  case (Cons i ins)
  from Cons.prems(2) obtain c1 k1 k2 where
    step: "callback ext i c = Inr (c1, k1)" and rest: "run ext c1 ins = Inr (c', k2)"
    by (auto split: sum.splits prod.splits)
  from callback_lifecycle[OF Cons.prems(1) step]
  have "lifecycle (n + (if poseWithIMU i then 1 else 0)) c1" .
  from Cons.IH[OF this rest] show ?case
    by (cases "poseWithIMU i") (simp_all add: samplesAccepted_def)
qed

lemma lifecycle_started: "lifecycle 0 (started now)"
  by (simp add: lifecycle_def started_def enterCameraPoseAcquisitionState_def
      StartupData_new_def REQUIRED_SAMPLES_def)

lemma callback_succeeds:
  assumes "lifecycle n c" and "poseStateAvailable i"
  shows "\<exists>c' calls. callback ext i c = Inr (c', calls)"
proof (cases i)
  case (Pair env rep)
  show ?thesis
  proof (cases rep)
    case (OrientationReport ts r)
    show ?thesis
    proof (cases "m_state c")
      case AcquiringCameraPose
      with Pair OrientationReport show ?thesis by (simp add: handleIMUData_idle)
    next
      case Running
      with assms(1) obtain rd where "m_runningData c = Some rd"
        by (auto simp: lifecycle_def)
      with Pair OrientationReport Running show ?thesis
        by (simp add: handleIMUData_running)
    qed
  next
    case (PoseReport ts r)
    show ?thesis
    proof (cases "m_state c")
      case AcquiringCameraPose
      show ?thesis
      proof (cases "imuInterface env")
        case None
        with Pair PoseReport AcquiringCameraPose show ?thesis
          by (simp add: startup_no_imu)
      next
        case (Some a)
        obtain its q where a: "a = (its, q)" by (cases a)
        from assms(1) AcquiringCameraPose obtain sd where sd: "m_startupData c = Some sd"
          by (auto simp: lifecycle_def)
        from assms(2) Pair PoseReport obtain posTs video where
          "videoInterface env = Some (posTs, video)" by auto
        with Pair PoseReport AcquiringCameraPose Some a sd show ?thesis
          by (simp add: startup_sample)
      qed
    next
      case Running
      with assms(1) obtain rd where "m_runningData c = Some rd"
        by (auto simp: lifecycle_def)
      with Pair PoseReport Running show ?thesis
        by (simp add: handleVideoTrackerData_running)
    qed
  qed
qed

lemma run_succeeds:
  "lifecycle n c \<Longrightarrow> \<forall>i\<in>set ins. poseStateAvailable i \<Longrightarrow>
   \<exists>c' calls. run ext c ins = Inr (c', calls)"
proof (induction ins arbitrary: n c)
  case Nil
  then show ?case by simp
next
  case (Cons i ins)
  from Cons.prems have "poseStateAvailable i" by simp
  from callback_succeeds[OF Cons.prems(1) this]
  obtain c1 k1 where step: "callback ext i c = Inr (c1, k1)" by blast
  from callback_lifecycle[OF Cons.prems(1) step]
  have "lifecycle (n + (if poseWithIMU i then 1 else 0)) c1" .
  from Cons.IH[OF this] Cons.prems(2)
  obtain c2 k2 where "run ext c1 ins = Inr (c2, k2)" by auto
  with step show ?case by simp
qed

lemma callback_running:
  assumes "m_state c = Running" and "m_runningData c = Some rd"
  shows "\<exists>c' calls rd'. callback ext i c = Inr (c', calls) \<and> m_state c' = Running \<and>
           m_runningData c' = Some rd'"
proof (cases i)
  case (Pair env rep)
  with assms show ?thesis
    by (cases rep) (simp_all add: handleIMUData_running handleVideoTrackerData_running)
qed

lemma run_running:
  "m_state c = Running \<Longrightarrow> m_runningData c = Some rd \<Longrightarrow>
   \<exists>c' calls rd'. run ext c ins = Inr (c', calls) \<and> m_state c' = Running \<and>
     m_runningData c' = Some rd'"
proof (induction ins arbitrary: c rd)
  case Nil
  then show ?case by simp
next
  case (Cons i ins)
  from callback_running[OF Cons.prems, of ext i]
  obtain c1 k1 rd1 where step: "callback ext i c = Inr (c1, k1)" "m_state c1 = Running"
    "m_runningData c1 = Some rd1" by blast
  from Cons.IH[OF step(2,3)]
  obtain c2 k2 rd2 where "run ext c1 ins = Inr (c2, k2)" "m_state c2 = Running"
    "m_runningData c2 = Some rd2" by blast
  with step show ?case by simp
qed


lemma initial_covariance:
  "asDiagonal InitialStateError = map (\<lambda>i. (replicate 12 0)[i := 1]) [0..<12]"
  by (simp add: asDiagonal_def InitialStateError_def upt_rec numeral_eq_Suc)

lemma initial_state_vector:
  "set_position (a, b, c) (replicate 12 0) = [a, b, c, 0, 0, 0, 0, 0, 0, 0, 0, 0]"
  by (simp add: set_position_def numeral_eq_Suc)

lemma run_nine: "run sample_ext (started (tv 100 0)) (butlast tenPoseReports) = Inr (acquired9, [])"
  by (simp add: acquired9_def tenPoseReports_def model_defs sample_defs Let_def numeral_eq_Suc)

lemma tenth_sample:
  "handleVideoTrackerData sample_ext (bothAt 110) (tv 110 0) videoReport acquired9 =
     Inr (running110, [])"
  by (simp add: acquired9_def running110_def model_defs sample_defs Let_def numeral_eq_Suc)

lemma run_ten: "run sample_ext (started (tv 100 0)) tenPoseReports = Inr (running110, [])"
  by (simp add: running110_def tenPoseReports_def model_defs sample_defs Let_def numeral_eq_Suc)

lemma transition_payload:
  assumes "m_state c = AcquiringCameraPose"
    and "handleVideoTrackerData ext env ts r c = Inr (c', calls)"
    and "m_state c' = Running"
  shows "\<exists>sd its q posTs video.
           m_startupData c = Some sd \<and> imuInterface env = Some (its, q) \<and>
           videoInterface env = Some (posTs, video) \<and>
           finished (handleReport ext ts r q sd) \<and> calls = [] \<and>
           c' = \<lparr>m_state = Running,
                 m_cTr_top = Some (getRoomToCamera ext (handleReport ext ts r q sd)),
                 m_startupData = None,
                 m_runningData =
                   Some (RunningData_new ext (getRoomToCamera ext (handleReport ext ts r q sd))
                           q video posTs its)\<rparr>"
proof (cases "imuInterface env")
  case None
  with assms show ?thesis by (simp add: startup_no_imu)
next
  case (Some p)
  obtain its q where p: "p = (its, q)" by (cases p)
  show ?thesis
  proof (cases "m_startupData c")
    case None
    with assms Some show ?thesis
      by (simp add: handleVideoTrackerData_def handleVideoTrackerDataDuringStartup_def
          split: prod.splits)
  next
    case (Some sd)
    with assms \<open>imuInterface env = Some p\<close> p show ?thesis
      by (auto simp: startup_sample split: if_splits option.splits)
  qed
qed

lemma handleIMUReport_no_send:
  "filter isFusedPose (snd (handleIMUReport ext ts r rd)) = []"
  by (cases "secondsElapsed ext (m_lastIMU rd) ts \<le> 0")
    (simp_all add: handleIMUReport_skip handleIMUReport_accept)

lemma handleVideoTrackerReport_no_send:
  "filter isFusedPose (snd (handleVideoTrackerReport ext ts r rd)) = []"
  by (cases "secondsElapsed ext (m_lastPosition rd) ts \<le> 0")
    (simp_all add: handleVideoTrackerReport_skip handleVideoTrackerReport_accept)

lemma callback_stays_running:
  assumes "m_state c = Running" and "callback ext i c = Inr (c', calls)"
  shows "m_state c' = Running"
proof (cases i)
  case (Pair env rep)
  show ?thesis
  proof (cases "m_runningData c")
    case None
    with assms Pair show ?thesis
      by (cases rep) (simp_all add: handleIMUData_def handleVideoTrackerData_def)
  next
    case (Some rd)
    with assms Pair show ?thesis
      by (cases rep) (auto simp: handleIMUData_running handleVideoTrackerData_running)
  qed
qed

lemma run_stays_running:
  "m_state c = Running \<Longrightarrow> run ext c ins = Inr (c', calls) \<Longrightarrow> m_state c' = Running"
proof (induction ins arbitrary: c calls)
  case Nil
  then show ?case by simp
next
  case (Cons i ins)
  from Cons.prems(2) obtain c1 k1 k2 where
    step: "callback ext i c = Inr (c1, k1)" and rest: "run ext c1 ins = Inr (c', k2)"
    by (auto split: sum.splits prod.splits)
  from callback_stays_running[OF Cons.prems(1) step] have "m_state c1 = Running" .
  from Cons.IH[OF this rest] show ?case .
qed

lemma constructed: "VideoIMUFusion_new True s0 now = Inr (started now)"
  by (simp add: VideoIMUFusion_new_def started_def enterCameraPoseAcquisitionState_def)

text \<open>
  The differences do not wrap on timestamps whose microsecond fields are normalised
  (from 0 up to 999999) and whose second fields are not negative.
\<close>

lemma microseconds_no_wrap:
  fixes a b :: "32 word"
  assumes "0 \<le> sint a" "sint a < 1000000" "0 \<le> sint b" "sint b < 1000000"
  shows "sint (b - a) = sint b - sint a"
proof -
  have "- (2 ^ 31) \<le> sint b - sint a" "sint b - sint a < 2 ^ 31"
    using assms by simp_all
  then show ?thesis
    by (simp add: sint_word_ariths signed_take_bit_int_eq_self)
qed

lemma seconds_no_wrap:
  fixes a b :: "64 word"
  assumes "0 \<le> sint a" "0 \<le> sint b"
  shows "sint (b - a) = sint b - sint a"
proof -
  have "sint a < 2 ^ 63" "sint b < 2 ^ 63"
    using sint_lt [of a] sint_lt [of b] by simp_all
  with assms have "- (2 ^ 63) \<le> sint b - sint a" "sint b - sint a < 2 ^ 63"
    by simp_all
  then show ?thesis
    by (simp add: sint_word_ariths signed_take_bit_int_eq_self)
qed

lemma secondsElapsed_no_wrap:
  assumes "0 \<le> sint (microseconds earlier)" "sint (microseconds earlier) < 1000000"
    and "0 \<le> sint (microseconds later)" "sint (microseconds later) < 1000000"
    and "0 \<le> sint (seconds earlier)" "0 \<le> sint (seconds later)"
  shows "secondsElapsed ext earlier later =
     toDouble ext
       (toDouble ext
          (real_of_int (sint (microseconds later) - sint (microseconds earlier)) / 1000000) +
        toDouble ext (real_of_int (sint (seconds later) - sint (seconds earlier))))"
  using assms by (simp only: secondsElapsed_def microseconds_no_wrap seconds_no_wrap)

text \<open>
  Where the microsecond difference does not fit 32 bits it wraps: from -2 to 2147483647
  microseconds within one second the function returns a negative time.
\<close>

lemma secondsElapsed_wraps:
  "secondsElapsed sample_ext (tv 100 (- 2)) (tv 100 2147483647) = - 2147483647 / 1000000"
  by (simp add: secondsElapsed_def sample_ext_def tv_def)

section \<open>Claims\<close>

text \<open>
  C1 (as amended). When \<^verbatim>\<open>RunningData\<close> is constructed, the process model's noise
  autocorrelation is multiplied by 0.5: every entry is half the entry of the default
  process model. This holds for the constructor on any arguments and for the payload
  the controller holds after the callback that takes it from AcquiringCameraPose to
  Running.
\<close>

theorem C1_noise_halved:
  "noiseAutocorrelation (processModel (m_filter
      (RunningData_new ext cTr initialIMU initialVideo lastPosition lastIMU))) =
     map (\<lambda>a. a / 2) (noiseAutocorrelation (processModel (defaultFilter ext))) \<and>
   (m_state c = AcquiringCameraPose \<and>
    handleVideoTrackerData ext env ts r c = Inr (c', calls) \<and> m_state c' = Running \<longrightarrow>
      map_option (\<lambda>rd. noiseAutocorrelation (processModel (m_filter rd))) (m_runningData c') =
        Some (map (\<lambda>a. a / 2) (noiseAutocorrelation (processModel (defaultFilter ext)))))"
proof (intro conjI impI)
  show ctor: "noiseAutocorrelation (processModel (m_filter
      (RunningData_new ext cTr initialIMU initialVideo lastPosition lastIMU))) =
     map (\<lambda>a. a / 2) (noiseAutocorrelation (processModel (defaultFilter ext)))"
    for cTr initialIMU initialVideo lastPosition lastIMU
    by (simp add: RunningData_new_def Let_def)
  assume "m_state c = AcquiringCameraPose \<and>
    handleVideoTrackerData ext env ts r c = Inr (c', calls) \<and> m_state c' = Running"
  then have a: "m_state c = AcquiringCameraPose"
    "handleVideoTrackerData ext env ts r c = Inr (c', calls)" "m_state c' = Running"
    by simp_all
  from transition_payload[OF a] ctor
  show "map_option (\<lambda>rd. noiseAutocorrelation (processModel (m_filter rd))) (m_runningData c') =
        Some (map (\<lambda>a. a / 2) (noiseAutocorrelation (processModel (defaultFilter ext))))"
    by auto
qed

text \<open>
  The tenth pose report takes \<open>acquired9\<close> to Running, and the payload it then holds has
  noise autocorrelation 1/2 where the default process model of \<open>sample_ext\<close> has 1.
\<close>

theorem C1_witness:
  "m_state acquired9 = AcquiringCameraPose \<and>
   handleVideoTrackerData sample_ext (bothAt 110) (tv 110 0) videoReport acquired9 =
     Inr (running110, []) \<and>
   m_state running110 = Running \<and>
   map_option (\<lambda>rd. noiseAutocorrelation (processModel (m_filter rd))) (m_runningData running110) =
     Some [1 / 2, 1 / 2, 1 / 2, 1 / 2, 1 / 2, 1 / 2]"
proof -
  have h: "m_state acquired9 = AcquiringCameraPose \<and>
    handleVideoTrackerData sample_ext (bothAt 110) (tv 110 0) videoReport acquired9 =
      Inr (running110, []) \<and> m_state running110 = Running"
    by (simp add: tenth_sample) (simp add: acquired9_def running110_def)
  from C1_noise_halved[of sample_ext _ _ _ _ _ acquired9 "bothAt 110" "tv 110 0" videoReport
      running110 "[]"] h
  show ?thesis by (simp add: sample_ext_def)
qed

text \<open>
  C1 as stated fails. Ten pose reports take the constructed controller to Running; the
  default process model of \<open>sample_ext\<close> has noise autocorrelation all ones, and the
  running payload holds all halves, which is not the default doubled.
\<close>

theorem C1_counterexample:
  "run sample_ext (started (tv 100 0)) tenPoseReports = Inr (running110, []) \<and>
   noiseAutocorrelation (processModel (defaultFilter sample_ext)) = [1, 1, 1, 1, 1, 1] \<and>
   map_option (\<lambda>rd. noiseAutocorrelation (processModel (m_filter rd))) (m_runningData running110) =
     Some [1 / 2, 1 / 2, 1 / 2, 1 / 2, 1 / 2, 1 / 2] \<and>
   map_option (\<lambda>rd. noiseAutocorrelation (processModel (m_filter rd))) (m_runningData running110) \<noteq>
     Some (map (\<lambda>a. 2 * a) (noiseAutocorrelation (processModel (defaultFilter sample_ext))))"
  by (simp add: run_ten) (simp add: running110_def RunningData_new_def sample_ext_def Let_def)

text \<open>
  C2 (as amended). In the Running state every report, orientation or pose, corrected or
  skipped, is answered by exactly one fused pose on the primary channel
  \<open>FUSED_SENSOR_ID\<close>: the filter's quaternion and position as the callback leaves them,
  stamped with the report's timestamp. The callback does not fail. For a skipped report
  the filter is the one the callback found, no call of the filter is made, and the pose
  sent is that filter's estimate; for any other report the filter is the one found,
  predicted and corrected.
\<close>

theorem C2_fused_pose_every_report:
  "m_state c = Running \<and> m_runningData c = Some rd \<longrightarrow>
     (\<exists>c' calls rd'.
        callback ext (env, rep) c = Inr (c', calls) \<and> m_runningData c' = Some rd' \<and>
        filter isFusedPose calls =
          [SendPose \<lparr>translation = position (stateVector (state (m_filter rd'))),
                     rotation = toQuat ext (quaternion (state (m_filter rd')))\<rparr>
             FUSED_SENSOR_ID (reportTimestamp rep)] \<and>
        (skipped ext rd rep \<longrightarrow>
           m_filter rd' = m_filter rd \<and> filter isFilterCall calls = [] \<and>
           filter isFusedPose calls =
             [SendPose \<lparr>translation = position (stateVector (state (m_filter rd))),
                     rotation = toQuat ext (quaternion (state (m_filter rd)))\<rparr>
                FUSED_SENSOR_ID (reportTimestamp rep)]) \<and>
        (\<not> skipped ext rd rep \<longrightarrow> m_filter rd' = corrected ext rd rep))"
proof
  assume a: "m_state c = Running \<and> m_runningData c = Some rd"
  show "\<exists>c' calls rd'.
        callback ext (env, rep) c = Inr (c', calls) \<and> m_runningData c' = Some rd' \<and>
        filter isFusedPose calls =
          [SendPose \<lparr>translation = position (stateVector (state (m_filter rd'))),
                     rotation = toQuat ext (quaternion (state (m_filter rd')))\<rparr>
             FUSED_SENSOR_ID (reportTimestamp rep)] \<and>
        (skipped ext rd rep \<longrightarrow>
           m_filter rd' = m_filter rd \<and> filter isFilterCall calls = [] \<and>
           filter isFusedPose calls =
             [SendPose \<lparr>translation = position (stateVector (state (m_filter rd))),
                     rotation = toQuat ext (quaternion (state (m_filter rd)))\<rparr>
                FUSED_SENSOR_ID (reportTimestamp rep)]) \<and>
        (\<not> skipped ext rd rep \<longrightarrow> m_filter rd' = corrected ext rd rep)"
  proof (cases rep)
    case (OrientationReport ts r)
    show ?thesis
    proof (cases "secondsElapsed ext (m_lastIMU rd) ts \<le> 0")
      case True
      with a OrientationReport show ?thesis
        by (simp add: handleIMUData_running handleIMUReport_skip getPosition_def
            getOrientation_def)
    next
      case False
      with a OrientationReport show ?thesis
        by (simp add: handleIMUData_running handleIMUReport_accept getPosition_def
            getOrientation_def)
    qed
  next
    case (PoseReport ts r)
    show ?thesis
    proof (cases "secondsElapsed ext (m_lastPosition rd) ts \<le> 0")
      case True
      with a PoseReport show ?thesis
        by (simp add: handleVideoTrackerData_running handleVideoTrackerReport_skip
            getPosition_def getOrientation_def FUSED_SENSOR_ID_def
            TRANSFORMED_VIDEO_SENSOR_ID_def)
    next
      case False
      with a PoseReport show ?thesis
        by (simp add: handleVideoTrackerData_running handleVideoTrackerReport_accept
            takeCameraPoseToRoom_def getPosition_def getOrientation_def FUSED_SENSOR_ID_def
            TRANSFORMED_VIDEO_SENSOR_ID_def)
    qed
  qed
qed

text \<open>
  Two orientation reports reach \<open>running100\<close>, whose last orientation timestamp is 100 s.
  The one stamped 100 s is skipped: the filter stays and one fused pose, the estimate
  (1, 2, 0), is sent. The one stamped 101.5 s is corrected, and one fused pose is sent.
\<close>

theorem C2_witness:
  "m_state running100 = Running \<and> m_runningData running100 = Some rd100 \<and>
   skipped sample_ext rd100 (OrientationReport (tv 100 0) imuReport) \<and>
   \<not> skipped sample_ext rd100 (OrientationReport (tv 101 500000) imuReport) \<and>
   (\<exists>c' calls rd'.
      callback sample_ext (bothAt 100, OrientationReport (tv 100 0) imuReport) running100 =
        Inr (c', calls) \<and>
      m_runningData c' = Some rd' \<and> m_filter rd' = m_filter rd100 \<and>
      filter isFilterCall calls = [] \<and>
      filter isFusedPose calls =
        [SendPose \<lparr>translation = (1, 2, 0), rotation = Quaternion 1 0 0 0\<rparr>
           FUSED_SENSOR_ID (tv 100 0)]) \<and>
   (\<exists>c' calls rd'.
      callback sample_ext (bothAt 101, OrientationReport (tv 101 500000) imuReport) running100 =
        Inr (c', calls) \<and>
      m_runningData c' = Some rd' \<and>
      m_filter rd' = corrected sample_ext rd100 (OrientationReport (tv 101 500000) imuReport) \<and>
      filter isFusedPose calls =
        [SendPose \<lparr>translation = position (stateVector (state (m_filter rd'))),
                   rotation = toQuat sample_ext (quaternion (state (m_filter rd')))\<rparr>
           FUSED_SENSOR_ID (tv 101 500000)])"
proof -
  have h: "m_state running100 = Running \<and> m_runningData running100 = Some rd100"
    by (simp add: running100_def)
  have k: "skipped sample_ext rd100 (OrientationReport (tv 100 0) imuReport)"
    "\<not> skipped sample_ext rd100 (OrientationReport (tv 101 500000) imuReport)"
    by (simp_all add: rd100_def RunningData_new_def Let_def secondsElapsed_def sample_ext_def
        tv_def)
  have p: "position (stateVector (state (m_filter rd100))) = (1, 2, 0)"
    "toQuat sample_ext (quaternion (state (m_filter rd100))) = Quaternion 1 0 0 0"
    by (simp_all add: rd100_def model_defs sample_defs Let_def)
  from C2_fused_pose_every_report[of running100 rd100 sample_ext "bothAt 100"
      "OrientationReport (tv 100 0) imuReport"]
    C2_fused_pose_every_report[of running100 rd100 sample_ext "bothAt 101"
      "OrientationReport (tv 101 500000) imuReport"] h k
  show ?thesis by (simp add: p del: skipped.simps corrected.simps; blast)
qed

text \<open>
  C2 as stated fails: the report above is skipped (elapsed time 0, no call of the
  filter), and a fused pose is sent all the same.
\<close>

theorem C2_counterexample:
  "secondsElapsed sample_ext (m_lastIMU rd100) (tv 100 0) = 0 \<and>
   callback sample_ext (bothAt 100, OrientationReport (tv 100 0) imuReport) running100 =
     Inr (running100,
          [SendPose \<lparr>translation = (1, 2, 0), rotation = Quaternion 1 0 0 0\<rparr>
             FUSED_SENSOR_ID (tv 100 0)])"
  by (simp add: running100_def rd100_def model_defs sample_defs Let_def)

text \<open>
  C3. The controller is constructed in AcquiringCameraPose. After any sequence of
  callbacks that ran without failure it is in Running exactly when the sequence holds
  at least \<open>REQUIRED_SAMPLES\<close> = 10 pose reports that found an orientation state; while
  it is still acquiring, the accumulator's counter is the number of such reports. So
  the state changes once, at the tenth accepted sample. The run does not fail when
  every pose report finds a pose state. From Running, every further sequence of
  callbacks (\<open>later\<close> below) ends in Running, and with the payload in place none fails.
\<close>

theorem C3_lifecycle:
  "REQUIRED_SAMPLES = 10 \<and>
   m_state (started now) = AcquiringCameraPose \<and>
   (run ext (started now) ins = Inr (c, calls) \<longrightarrow>
      (m_state c = Running \<longleftrightarrow> REQUIRED_SAMPLES \<le> samplesAccepted ins) \<and>
      (m_state c = AcquiringCameraPose \<longrightarrow>
         map_option reports (m_startupData c) = Some (samplesAccepted ins))) \<and>
   (list_all poseStateAvailable ins \<longrightarrow>
      (\<exists>c1 calls1. run ext (started now) ins = Inr (c1, calls1))) \<and>
   (m_state c0 = Running \<and> run ext c0 later = Inr (c2, calls2) \<longrightarrow> m_state c2 = Running) \<and>
   (m_state c0 = Running \<and> m_runningData c0 = Some rd \<longrightarrow>
      (\<exists>c3 calls3. run ext c0 later = Inr (c3, calls3) \<and> m_state c3 = Running))"
proof (intro conjI impI)
  show "REQUIRED_SAMPLES = 10" by (simp add: REQUIRED_SAMPLES_def)
  show "m_state (started now) = AcquiringCameraPose"
    by (simp add: started_def enterCameraPoseAcquisitionState_def)
  {
    assume "run ext (started now) ins = Inr (c, calls)"
    from run_lifecycle[OF lifecycle_started this]
    have l: "lifecycle (samplesAccepted ins) c" by simp
    then show "(m_state c = Running) = (REQUIRED_SAMPLES \<le> samplesAccepted ins)"
      by (cases "m_state c") (auto simp: lifecycle_def)
    assume "m_state c = AcquiringCameraPose"
    with l show "map_option reports (m_startupData c) = Some (samplesAccepted ins)"
      by (simp add: lifecycle_def)
  }
  {
    assume "list_all poseStateAvailable ins"
    then have "\<forall>i\<in>set ins. poseStateAvailable i" by (simp add: list_all_iff)
    from run_succeeds[OF lifecycle_started this]
    show "\<exists>c1 calls1. run ext (started now) ins = Inr (c1, calls1)" .
  }
  {
    assume "m_state c0 = Running \<and> run ext c0 later = Inr (c2, calls2)"
    then show "m_state c2 = Running" by (blast intro: run_stays_running)
  }
  {
    assume "m_state c0 = Running \<and> m_runningData c0 = Some rd"
    then have "m_state c0 = Running" "m_runningData c0 = Some rd" by simp_all
    from run_running[OF this]
    show "\<exists>c3 calls3. run ext c0 later = Inr (c3, calls3) \<and> m_state c3 = Running" by blast
  }
qed

text \<open>
  Ten pose reports, each finding both interface states, take the controller to Running;
  nine leave it acquiring with counter 9; a further report leaves \<open>running100\<close> running.
\<close>

theorem C3_witness:
  "run sample_ext (started (tv 100 0)) tenPoseReports = Inr (running110, []) \<and>
   list_all poseStateAvailable tenPoseReports \<and>
   m_state running110 = Running \<and> samplesAccepted tenPoseReports = 10 \<and>
   run sample_ext (started (tv 100 0)) (butlast tenPoseReports) = Inr (acquired9, []) \<and>
   m_state acquired9 = AcquiringCameraPose \<and> samplesAccepted (butlast tenPoseReports) = 9 \<and>
   map_option reports (m_startupData acquired9) = Some 9 \<and>
   m_state running100 = Running \<and> m_runningData running100 = Some rd100 \<and>
   run sample_ext running100 [(bothAt 100, OrientationReport (tv 100 0) imuReport)] =
     Inr (running100,
          [SendPose \<lparr>translation = (1, 2, 0), rotation = Quaternion 1 0 0 0\<rparr>
             FUSED_SENSOR_ID (tv 100 0)]) \<and>
   (\<exists>c3 calls3. run sample_ext running100 [(bothAt 100, OrientationReport (tv 100 0) imuReport)] =
      Inr (c3, calls3) \<and> m_state c3 = Running)"
proof -
  have h1: "run sample_ext (started (tv 100 0)) tenPoseReports = Inr (running110, [])"
    by (rule run_ten)
  have h2: "list_all poseStateAvailable tenPoseReports"
    by (simp add: tenPoseReports_def bothAt_def)
  have h3: "m_state running100 = Running \<and> m_runningData running100 = Some rd100"
    by (simp add: running100_def)
  have h4: "run sample_ext running100 [(bothAt 100, OrientationReport (tv 100 0) imuReport)] =
     Inr (running100,
          [SendPose \<lparr>translation = (1, 2, 0), rotation = Quaternion 1 0 0 0\<rparr>
             FUSED_SENSOR_ID (tv 100 0)])"
    by (simp add: running100_def rd100_def model_defs sample_defs Let_def)
  have h5: "run sample_ext (started (tv 100 0)) (butlast tenPoseReports) = Inr (acquired9, [])"
    by (rule run_nine)
  have n: "samplesAccepted tenPoseReports = 10" "samplesAccepted (butlast tenPoseReports) = 9"
    by (simp_all add: samplesAccepted_def tenPoseReports_def bothAt_def)
  have s: "m_state acquired9 = AcquiringCameraPose" by (simp add: acquired9_def)
  from C3_lifecycle[of "tv 100 0" sample_ext tenPoseReports running110 "[]" running100
      "[(bothAt 100, OrientationReport (tv 100 0) imuReport)]" running100
      "[SendPose \<lparr>translation = (1, 2, 0), rotation = Quaternion 1 0 0 0\<rparr>
             FUSED_SENSOR_ID (tv 100 0)]" rd100]
    C3_lifecycle[of "tv 100 0" sample_ext "butlast tenPoseReports" acquired9 "[]" running100
      "[]" running100 "[]" rd100]
    h1 h2 h3 h4 h5 n s
  show ?thesis by simp
qed

text \<open>
  C4. In the Running state, a report whose elapsed time since the last accepted report
  of the same sensor, as \<^verbatim>\<open>secondsElapsed\<close> computes it, is not positive (\<open>ts\<close> below) makes
  no call of \<open>predict\<close> or \<open>correct\<close> and leaves the filter and both last-seen timestamps
  as they were. A report with positive elapsed time \<open>dt\<close> (\<open>ts'\<close> below) calls
  \<open>predict dt\<close>, then \<open>correct\<close> with the measurement of that sensor (the reported
  orientation with the IMU error; the reported pose taken to the room with the camera
  error), sets that sensor's last-seen timestamp to the report's and leaves the other
  sensor's alone. The elapsed time is the wrapped 32-bit difference of the microsecond
  fields divided by 1000000, plus the wrapped 64-bit difference of the second fields, in
  doubles.
\<close>

theorem C4_gating:
  "(secondsElapsed ext earlier later =
     toDouble ext
       (toDouble ext (real_of_int (sint (microseconds later - microseconds earlier)) / 1000000) +
        toDouble ext (real_of_int (sint (seconds later - seconds earlier))))) \<and>
   (m_state c = Running \<and> m_runningData c = Some rd \<longrightarrow>
   (secondsElapsed ext (m_lastIMU rd) ts \<le> 0 \<longrightarrow>
      (\<exists>rd' calls. handleIMUData ext ts r c = Inr (c\<lparr>m_runningData := Some rd'\<rparr>, calls) \<and>
         filter isFilterCall calls = [] \<and> m_filter rd' = m_filter rd \<and>
         m_lastIMU rd' = m_lastIMU rd \<and> m_lastPosition rd' = m_lastPosition rd)) \<and>
   (0 < secondsElapsed ext (m_lastIMU rd) ts' \<longrightarrow>
      (\<exists>rd' calls. handleIMUData ext ts' r c = Inr (c\<lparr>m_runningData := Some rd'\<rparr>, calls) \<and>
         filter isFilterCall calls =
           [Predict (secondsElapsed ext (m_lastIMU rd) ts'),
            CorrectOrientation \<lparr>ori_measurement = fromQuat ext (ori_rotation r),
                                ori_covariance = asDiagonal (m_imuError rd)\<rparr>] \<and>
         m_filter rd' =
           correctOrientation ext
             \<lparr>ori_measurement = fromQuat ext (ori_rotation r),
              ori_covariance = asDiagonal (m_imuError rd)\<rparr>
             (predict ext (secondsElapsed ext (m_lastIMU rd) ts') (m_filter rd)) \<and>
         m_lastIMU rd' = ts' \<and> m_lastPosition rd' = m_lastPosition rd)) \<and>
   (secondsElapsed ext (m_lastPosition rd) ts \<le> 0 \<longrightarrow>
      (\<exists>rd' calls. handleVideoTrackerData ext env ts p c =
           Inr (c\<lparr>m_runningData := Some rd'\<rparr>, calls) \<and>
         filter isFilterCall calls = [] \<and> m_filter rd' = m_filter rd \<and>
         m_lastPosition rd' = m_lastPosition rd \<and> m_lastIMU rd' = m_lastIMU rd)) \<and>
   (0 < secondsElapsed ext (m_lastPosition rd) ts' \<longrightarrow>
      (\<exists>rd' calls. handleVideoTrackerData ext env ts' p c =
           Inr (c\<lparr>m_runningData := Some rd'\<rparr>, calls) \<and>
         filter isFilterCall calls =
           [Predict (secondsElapsed ext (m_lastPosition rd) ts'),
            CorrectPose
              \<lparr>pos_measurement = iso_translation ext (iso_mul ext (m_cTr rd) (fromPose ext (pose p))),
               pose_ori_measurement =
                 quat_of_matrix ext (iso_rotation ext (iso_mul ext (m_cTr rd) (fromPose ext (pose p)))),
               pose_covariance = asDiagonal (m_cameraError rd)\<rparr>] \<and>
         m_filter rd' =
           correctPose ext
             \<lparr>pos_measurement = iso_translation ext (iso_mul ext (m_cTr rd) (fromPose ext (pose p))),
              pose_ori_measurement =
                quat_of_matrix ext (iso_rotation ext (iso_mul ext (m_cTr rd) (fromPose ext (pose p)))),
              pose_covariance = asDiagonal (m_cameraError rd)\<rparr>
             (predict ext (secondsElapsed ext (m_lastPosition rd) ts') (m_filter rd)) \<and>
         m_lastPosition rd' = ts' \<and> m_lastIMU rd' = m_lastIMU rd)))"
proof (intro impI conjI)
  show "secondsElapsed ext earlier later =
     toDouble ext
       (toDouble ext (real_of_int (sint (microseconds later - microseconds earlier)) / 1000000) +
        toDouble ext (real_of_int (sint (seconds later - seconds earlier))))"
    by (rule secondsElapsed_def)
  assume a: "m_state c = Running \<and> m_runningData c = Some rd"
  {
    assume "secondsElapsed ext (m_lastIMU rd) ts \<le> 0"
    with a show "\<exists>rd' calls. handleIMUData ext ts r c = Inr (c\<lparr>m_runningData := Some rd'\<rparr>, calls) \<and>
         filter isFilterCall calls = [] \<and> m_filter rd' = m_filter rd \<and>
         m_lastIMU rd' = m_lastIMU rd \<and> m_lastPosition rd' = m_lastPosition rd"
      by (auto simp: handleIMUData_running handleIMUReport_skip)
  next
    assume "0 < secondsElapsed ext (m_lastIMU rd) ts'"
    with a show "\<exists>rd' calls. handleIMUData ext ts' r c = Inr (c\<lparr>m_runningData := Some rd'\<rparr>, calls) \<and>
         filter isFilterCall calls =
           [Predict (secondsElapsed ext (m_lastIMU rd) ts'),
            CorrectOrientation \<lparr>ori_measurement = fromQuat ext (ori_rotation r),
                                ori_covariance = asDiagonal (m_imuError rd)\<rparr>] \<and>
         m_filter rd' =
           correctOrientation ext
             \<lparr>ori_measurement = fromQuat ext (ori_rotation r),
              ori_covariance = asDiagonal (m_imuError rd)\<rparr>
             (predict ext (secondsElapsed ext (m_lastIMU rd) ts') (m_filter rd)) \<and>
         m_lastIMU rd' = ts' \<and> m_lastPosition rd' = m_lastPosition rd"
      by (auto simp: handleIMUData_running handleIMUReport_accept)
  next
    assume "secondsElapsed ext (m_lastPosition rd) ts \<le> 0"
    with a show "\<exists>rd' calls. handleVideoTrackerData ext env ts p c =
           Inr (c\<lparr>m_runningData := Some rd'\<rparr>, calls) \<and>
         filter isFilterCall calls = [] \<and> m_filter rd' = m_filter rd \<and>
         m_lastPosition rd' = m_lastPosition rd \<and> m_lastIMU rd' = m_lastIMU rd"
      by (auto simp: handleVideoTrackerData_running handleVideoTrackerReport_skip)
  next
    assume "0 < secondsElapsed ext (m_lastPosition rd) ts'"
    with a show "\<exists>rd' calls. handleVideoTrackerData ext env ts' p c =
           Inr (c\<lparr>m_runningData := Some rd'\<rparr>, calls) \<and>
         filter isFilterCall calls =
           [Predict (secondsElapsed ext (m_lastPosition rd) ts'),
            CorrectPose
              \<lparr>pos_measurement = iso_translation ext (iso_mul ext (m_cTr rd) (fromPose ext (pose p))),
               pose_ori_measurement =
                 quat_of_matrix ext (iso_rotation ext (iso_mul ext (m_cTr rd) (fromPose ext (pose p)))),
               pose_covariance = asDiagonal (m_cameraError rd)\<rparr>] \<and>
         m_filter rd' =
           correctPose ext
             \<lparr>pos_measurement = iso_translation ext (iso_mul ext (m_cTr rd) (fromPose ext (pose p))),
              pose_ori_measurement =
                quat_of_matrix ext (iso_rotation ext (iso_mul ext (m_cTr rd) (fromPose ext (pose p)))),
              pose_covariance = asDiagonal (m_cameraError rd)\<rparr>
             (predict ext (secondsElapsed ext (m_lastPosition rd) ts') (m_filter rd)) \<and>
         m_lastPosition rd' = ts' \<and> m_lastIMU rd' = m_lastIMU rd"
      by (auto simp: handleVideoTrackerData_running handleVideoTrackerReport_accept
          takeCameraPoseToRoom_def)
  }
qed

theorem C4_witness:
  "m_state running100 = Running \<and> m_runningData running100 = Some rd100 \<and>
   secondsElapsed sample_ext (m_lastIMU rd100) (tv 100 0) \<le> 0 \<and>
   0 < secondsElapsed sample_ext (m_lastIMU rd100) (tv 101 500000) \<and>
   secondsElapsed sample_ext (m_lastPosition rd100) (tv 100 0) \<le> 0 \<and>
   0 < secondsElapsed sample_ext (m_lastPosition rd100) (tv 101 500000) \<and>
   (\<exists>rd' calls. handleIMUData sample_ext (tv 100 0) imuReport running100 =
        Inr (running100\<lparr>m_runningData := Some rd'\<rparr>, calls) \<and>
      filter isFilterCall calls = [] \<and> m_filter rd' = m_filter rd100 \<and>
      m_lastIMU rd' = tv 100 0) \<and>
   (\<exists>rd' calls. handleIMUData sample_ext (tv 101 500000) imuReport running100 =
        Inr (running100\<lparr>m_runningData := Some rd'\<rparr>, calls) \<and>
      filter isFilterCall calls =
        [Predict (3 / 2),
         CorrectOrientation \<lparr>ori_measurement = identityQuat,
                             ori_covariance = asDiagonal [1, 1 / 2, 3 / 4, 1 / 2]\<rparr>] \<and>
      m_lastIMU rd' = tv 101 500000 \<and> m_lastPosition rd' = tv 100 0) \<and>
   (\<exists>rd' calls. handleVideoTrackerData sample_ext (bothAt 101) (tv 100 0) videoReport running100 =
        Inr (running100\<lparr>m_runningData := Some rd'\<rparr>, calls) \<and>
      filter isFilterCall calls = [] \<and> m_filter rd' = m_filter rd100 \<and>
      m_lastPosition rd' = tv 100 0) \<and>
   (\<exists>rd' calls. handleVideoTrackerData sample_ext (bothAt 101) (tv 101 500000) videoReport running100 =
        Inr (running100\<lparr>m_runningData := Some rd'\<rparr>, calls) \<and>
      filter isFilterCall calls =
        [Predict (3 / 2),
         CorrectPose \<lparr>pos_measurement = (1, 2, 0), pose_ori_measurement = identityQuat,
                      pose_covariance = asDiagonal [1, 1, 1, 1, 11 / 20, 11 / 20, 11 / 20]\<rparr>] \<and>
      m_lastPosition rd' = tv 101 500000 \<and> m_lastIMU rd' = tv 100 0)"
proof -
  have h: "m_state running100 = Running \<and> m_runningData running100 = Some rd100"
    by (simp add: running100_def)
  have t: "secondsElapsed sample_ext (tv 100 0) (tv 100 0) = 0"
    "secondsElapsed sample_ext (tv 100 0) (tv 101 500000) = 3 / 2"
    by (simp_all add: secondsElapsed_def sample_ext_def tv_def)
  have v: "m_lastIMU rd100 = tv 100 0" "m_lastPosition rd100 = tv 100 0"
    "m_imuError rd100 = [1, 1 / 2, 3 / 4, 1 / 2]"
    "m_cameraError rd100 = [1, 1, 1, 1, 11 / 20, 11 / 20, 11 / 20]"
    "iso_translation sample_ext (iso_mul sample_ext (m_cTr rd100) (fromPose sample_ext (pose videoReport)))
       = (1, 2, 0)"
    "quat_of_matrix sample_ext (iso_rotation sample_ext
       (iso_mul sample_ext (m_cTr rd100) (fromPose sample_ext (pose videoReport)))) = identityQuat"
    "fromQuat sample_ext (ori_rotation imuReport) = identityQuat"
    by (simp_all add: rd100_def model_defs sample_defs Let_def)
  from C4_gating[where c = running100 and rd = rd100 and ts = "tv 100 0" and ts' = "tv 101 500000"
      and ext = sample_ext and r = imuReport and p = videoReport and env = "bothAt 101",
      THEN conjunct2] h
  show ?thesis by (simp add: t v; blast)
qed

text \<open>
  C5. The callback that takes the controller from AcquiringCameraPose to Running leaves
  a filter whose state vector is the translation of the room pose followed by nine
  zeros, whose reference quaternion is the rotation of the room pose, and whose error
  covariance has ones on the diagonal and zeros elsewhere. The room pose is the
  smoothed camera-to-room transform composed with the pose state the video interface
  holds. The smoothed transform is made, with unit scale, of the state of the position
  filter and the state of the orientation filter, each read after the candidate of this
  report (\<open>cand\<close>, with its elapsed time \<open>dt\<close>) was fed to it.
\<close>

theorem C5_seeding:
  "m_state c = AcquiringCameraPose \<and>
   handleVideoTrackerData ext env ts r c = Inr (c', calls) \<and> m_state c' = Running \<longrightarrow>
   (\<exists>sd its q posTs video rd dt cand smoothed x y z.
      m_startupData c = Some sd \<and> imuInterface env = Some (its, q) \<and>
      videoInterface env = Some (posTs, video) \<and> m_runningData c' = Some rd \<and>
      dt = (if secondsElapsed ext (last_ts sd) ts \<le> 0 then 1
            else secondsElapsed ext (last_ts sd) ts) \<and>
      cand = iso_mul ext (iso_inverse ext (fromPose ext (pose r)))
               (iso_of_quat ext (fromQuat ext q)) \<and>
      smoothed =
        fromPositionOrientationScale ext
          (vecFilterState ext (positionFilter sd @ [(dt, iso_translation ext cand)]))
          (quatFilterState ext
             (orientationFilter sd @ [(dt, quat_of_matrix ext (iso_rotation ext cand))]))
          (1, 1, 1) \<and>
      iso_translation ext (iso_mul ext smoothed (fromPose ext video)) = (x, y, z) \<and>
      stateVector (state (m_filter rd)) = [x, y, z, 0, 0, 0, 0, 0, 0, 0, 0, 0] \<and>
      quaternion (state (m_filter rd)) =
        quat_of_matrix ext (iso_rotation ext (iso_mul ext smoothed (fromPose ext video))) \<and>
      errorCovariance (state (m_filter rd)) = map (\<lambda>i. (replicate 12 0)[i := 1]) [0..<12])"
proof
  assume "m_state c = AcquiringCameraPose \<and>
    handleVideoTrackerData ext env ts r c = Inr (c', calls) \<and> m_state c' = Running"
  then have a: "m_state c = AcquiringCameraPose"
    "handleVideoTrackerData ext env ts r c = Inr (c', calls)" "m_state c' = Running"
    by simp_all
  from transition_payload[OF a] obtain sd its q posTs video where
    p: "m_startupData c = Some sd" "imuInterface env = Some (its, q)"
      "videoInterface env = Some (posTs, video)"
      "m_runningData c' =
         Some (RunningData_new ext (getRoomToCamera ext (handleReport ext ts r q sd))
                 q video posTs its)"
    by auto
  define dt where
    "dt = (if secondsElapsed ext (last_ts sd) ts \<le> 0 then 1
            else secondsElapsed ext (last_ts sd) ts)"
  define cand where
    "cand = iso_mul ext (iso_inverse ext (fromPose ext (pose r)))
               (iso_of_quat ext (fromQuat ext q))"
  define smoothed where
    "smoothed =
        fromPositionOrientationScale ext
          (vecFilterState ext (positionFilter sd @ [(dt, iso_translation ext cand)]))
          (quatFilterState ext
             (orientationFilter sd @ [(dt, quat_of_matrix ext (iso_rotation ext cand))]))
          (1, 1, 1)"
  have g: "getRoomToCamera ext (handleReport ext ts r q sd) = smoothed"
    by (simp add: getRoomToCamera_def handleReport_def Let_def OneEuroFilter_filter_def
        smoothed_def dt_def cand_def)
  obtain x y z where
    t: "iso_translation ext (iso_mul ext smoothed (fromPose ext video)) = (x, y, z)"
    by (metis prod_cases3)
  have r1: "stateVector (state (m_filter (RunningData_new ext smoothed q video posTs its))) =
        [x, y, z, 0, 0, 0, 0, 0, 0, 0, 0, 0]"
    by (simp add: RunningData_new_def Let_def takeCameraPoseToRoom_def t initial_state_vector)
  have r2: "quaternion (state (m_filter (RunningData_new ext smoothed q video posTs its))) =
        quat_of_matrix ext (iso_rotation ext (iso_mul ext smoothed (fromPose ext video)))"
    by (simp add: RunningData_new_def Let_def takeCameraPoseToRoom_def)
  have r3: "errorCovariance (state (m_filter (RunningData_new ext smoothed q video posTs its))) =
        map (\<lambda>i. (replicate 12 0)[i := 1]) [0..<12]"
    by (simp add: RunningData_new_def Let_def initial_covariance)
  from p(4) g have rd: "m_runningData c' = Some (RunningData_new ext smoothed q video posTs its)"
    by simp
  show "\<exists>sd its q posTs video rd dt cand smoothed x y z.
      m_startupData c = Some sd \<and> imuInterface env = Some (its, q) \<and>
      videoInterface env = Some (posTs, video) \<and> m_runningData c' = Some rd \<and>
      dt = (if secondsElapsed ext (last_ts sd) ts \<le> 0 then 1
            else secondsElapsed ext (last_ts sd) ts) \<and>
      cand = iso_mul ext (iso_inverse ext (fromPose ext (pose r)))
               (iso_of_quat ext (fromQuat ext q)) \<and>
      smoothed =
        fromPositionOrientationScale ext
          (vecFilterState ext (positionFilter sd @ [(dt, iso_translation ext cand)]))
          (quatFilterState ext
             (orientationFilter sd @ [(dt, quat_of_matrix ext (iso_rotation ext cand))]))
          (1, 1, 1) \<and>
      iso_translation ext (iso_mul ext smoothed (fromPose ext video)) = (x, y, z) \<and>
      stateVector (state (m_filter rd)) = [x, y, z, 0, 0, 0, 0, 0, 0, 0, 0, 0] \<and>
      quaternion (state (m_filter rd)) =
        quat_of_matrix ext (iso_rotation ext (iso_mul ext smoothed (fromPose ext video))) \<and>
      errorCovariance (state (m_filter rd)) = map (\<lambda>i. (replicate 12 0)[i := 1]) [0..<12]"
    using p(1,2,3) rd dt_def cand_def smoothed_def t r1 r2 r3 by blast
qed

text \<open>
  Nine samples put the camera one unit against x. The tenth pose report puts the device
  four units along x, so the sample fed last, which the position filter of \<open>sample_ext\<close>
  returns, is four units against x; with a pose state three units along x the filter is
  seeded one unit against x.
\<close>

theorem C5_witness:
  "m_state acquired9 = AcquiringCameraPose \<and>
   handleVideoTrackerData sample_ext movedAt110 (tv 110 0) videoReport4 acquired9 =
     Inr (seeded110, []) \<and>
   m_state seeded110 = Running \<and>
   fromPositionOrientationScale sample_ext
     (vecFilterState sample_ext (replicate 9 (1, (- 1, 0, 0)) @ [(1, (- 4, 0, 0))]))
     (quatFilterState sample_ext (replicate 9 (1, identityQuat) @ [(1, identityQuat)])) (1, 1, 1) =
     Isometry3d ((1, 0, 0), (0, 1, 0), (0, 0, 1)) (- 4, 0, 0) \<and>
   (\<exists>rd. m_runningData seeded110 = Some rd \<and>
      stateVector (state (m_filter rd)) = [- 1, 0, 0, 0, 0, 0, 0, 0, 0, 0, 0, 0] \<and>
      quaternion (state (m_filter rd)) = Quaternion 1 0 0 0 \<and>
      errorCovariance (state (m_filter rd)) = map (\<lambda>i. (replicate 12 0)[i := 1]) [0..<12])"
proof -
  have h: "m_state acquired9 = AcquiringCameraPose \<and>
   handleVideoTrackerData sample_ext movedAt110 (tv 110 0) videoReport4 acquired9 =
     Inr (seeded110, []) \<and> m_state seeded110 = Running"
    by (simp add: acquired9_def seeded110_def movedAt110_def videoReport4_def model_defs
        sample_defs Let_def numeral_eq_Suc)
  have s: "m_startupData acquired9 =
      Some \<lparr>reports = 9, last_ts = tv 109 0,
            positionFilter = replicate 9 (1, (- 1, 0, 0)),
            orientationFilter = replicate 9 (1, identityQuat)\<rparr>"
    by (simp add: acquired9_def)
  have f: "fromPositionOrientationScale sample_ext
     (vecFilterState sample_ext (replicate 9 (1, (- 1, 0, 0)) @ [(1, (- 4, 0, 0))]))
     (quatFilterState sample_ext (replicate 9 (1, identityQuat) @ [(1, identityQuat)])) (1, 1, 1) =
     Isometry3d ((1, 0, 0), (0, 1, 0), (0, 0, 1)) (- 4, 0, 0)"
    by (simp add: sample_defs)
  from C5_seeding[of acquired9 sample_ext movedAt110 "tv 110 0" videoReport4 seeded110 "[]"] h
  obtain sd its q posTs video rd dt cand smoothed x y z where
    w: "m_startupData acquired9 = Some sd" "imuInterface movedAt110 = Some (its, q)"
      "videoInterface movedAt110 = Some (posTs, video)" "m_runningData seeded110 = Some rd"
      "dt = (if secondsElapsed sample_ext (last_ts sd) (tv 110 0) \<le> 0 then 1
            else secondsElapsed sample_ext (last_ts sd) (tv 110 0))"
      "cand = iso_mul sample_ext (iso_inverse sample_ext (fromPose sample_ext (pose videoReport4)))
               (iso_of_quat sample_ext (fromQuat sample_ext q))"
      "smoothed =
        fromPositionOrientationScale sample_ext
          (vecFilterState sample_ext (positionFilter sd @ [(dt, iso_translation sample_ext cand)]))
          (quatFilterState sample_ext
             (orientationFilter sd @
              [(dt, quat_of_matrix sample_ext (iso_rotation sample_ext cand))]))
          (1, 1, 1)"
      "iso_translation sample_ext (iso_mul sample_ext smoothed (fromPose sample_ext video)) =
         (x, y, z)"
      "stateVector (state (m_filter rd)) = [x, y, z, 0, 0, 0, 0, 0, 0, 0, 0, 0]"
      "quaternion (state (m_filter rd)) =
        quat_of_matrix sample_ext
          (iso_rotation sample_ext (iso_mul sample_ext smoothed (fromPose sample_ext video)))"
      "errorCovariance (state (m_filter rd)) = map (\<lambda>i. (replicate 12 0)[i := 1]) [0..<12]"
    by blast
  from w(1) s have sd: "sd = \<lparr>reports = 9, last_ts = tv 109 0,
            positionFilter = replicate 9 (1, (- 1, 0, 0)),
            orientationFilter = replicate 9 (1, identityQuat)\<rparr>" by simp
  from w(2,3) have e: "q = identityQuat"
    "video = \<lparr>translation = (3, 0, 0), rotation = identityQuat\<rparr>"
    by (simp_all add: movedAt110_def)
  from w(5) have dt: "dt = 1"
    unfolding sd by (simp add: secondsElapsed_def sample_ext_def tv_def)
  from w(6) have cand: "cand = Isometry3d ((1, 0, 0), (0, 1, 0), (0, 0, 1)) (- 4, 0, 0)"
    unfolding e by (simp add: videoReport4_def sample_defs)
  from w(7) have sm: "smoothed = Isometry3d ((1, 0, 0), (0, 1, 0), (0, 0, 1)) (- 4, 0, 0)"
    unfolding sd dt cand by (simp add: sample_defs)
  from w(8) have "(x, y, z) = (- 1, 0, 0)"
    unfolding sm e by (simp add: sample_defs)
  moreover from w(10) have "quaternion (state (m_filter rd)) = Quaternion 1 0 0 0"
    unfolding sm e by (simp add: sample_defs)
  ultimately show ?thesis using h f w(4,9,11) by simp
qed

text \<open>
  C6. \<^verbatim>\<open>StartupData::handleReport\<close> forms the candidate as the inverse of the
  tracker-reported transform composed with the transform made from the orientation it
  is given, feeds the candidate's translation to the position filter and its rotation
  to the orientation filter, adds one to the counter and stores the report's timestamp.
  In AcquiringCameraPose a pose report that finds an orientation state \<open>q\<close> is handled by
  that function with \<open>q\<close>: the accumulator it returns is kept, or, when it is finished,
  read for the transition.
\<close>

theorem C6_accumulate:
  "map snd (positionFilter (handleReport ext ts r q sd)) =
     map snd (positionFilter sd) @
       [iso_translation ext
          (iso_mul ext (iso_inverse ext (fromPose ext (pose r)))
             (iso_of_quat ext (fromQuat ext q)))] \<and>
   map snd (orientationFilter (handleReport ext ts r q sd)) =
     map snd (orientationFilter sd) @
       [quat_of_matrix ext (iso_rotation ext
          (iso_mul ext (iso_inverse ext (fromPose ext (pose r)))
             (iso_of_quat ext (fromQuat ext q))))] \<and>
   reports (handleReport ext ts r q sd) = reports sd + 1 \<and>
   last_ts (handleReport ext ts r q sd) = ts \<and>
   (m_state c = AcquiringCameraPose \<and> m_startupData c = Some sd \<and>
    imuInterface env = Some (its, q) \<longrightarrow>
      handleVideoTrackerData ext env ts r c =
        (if finished (handleReport ext ts r q sd) then
           (case videoInterface env of
              None \<Rightarrow> Inl AssertionFailed
            | Some (posTs, video) \<Rightarrow>
                Inr (\<lparr>m_state = Running,
                      m_cTr_top = Some (getRoomToCamera ext (handleReport ext ts r q sd)),
                      m_startupData = None,
                      m_runningData =
                        Some (RunningData_new ext
                                (getRoomToCamera ext (handleReport ext ts r q sd))
                                q video posTs its)\<rparr>, []))
         else Inr (c\<lparr>m_startupData := Some (handleReport ext ts r q sd)\<rparr>, [])))"
proof (intro conjI impI)
  show "map snd (positionFilter (handleReport ext ts r q sd)) =
     map snd (positionFilter sd) @
       [iso_translation ext
          (iso_mul ext (iso_inverse ext (fromPose ext (pose r)))
             (iso_of_quat ext (fromQuat ext q)))]"
    by (simp add: handleReport_def Let_def OneEuroFilter_filter_def)
  show "map snd (orientationFilter (handleReport ext ts r q sd)) =
     map snd (orientationFilter sd) @
       [quat_of_matrix ext (iso_rotation ext
          (iso_mul ext (iso_inverse ext (fromPose ext (pose r)))
             (iso_of_quat ext (fromQuat ext q))))]"
    by (simp add: handleReport_def Let_def OneEuroFilter_filter_def)
  show "reports (handleReport ext ts r q sd) = reports sd + 1"
    by (rule reports_handleReport)
  show "last_ts (handleReport ext ts r q sd) = ts"
    by (simp add: handleReport_def Let_def)
  assume "m_state c = AcquiringCameraPose \<and> m_startupData c = Some sd \<and>
    imuInterface env = Some (its, q)"
  then show "handleVideoTrackerData ext env ts r c =
        (if finished (handleReport ext ts r q sd) then
           (case videoInterface env of
              None \<Rightarrow> Inl AssertionFailed
            | Some (posTs, video) \<Rightarrow>
                Inr (\<lparr>m_state = Running,
                      m_cTr_top = Some (getRoomToCamera ext (handleReport ext ts r q sd)),
                      m_startupData = None,
                      m_runningData =
                        Some (RunningData_new ext
                                (getRoomToCamera ext (handleReport ext ts r q sd))
                                q video posTs its)\<rparr>, []))
         else Inr (c\<lparr>m_startupData := Some (handleReport ext ts r q sd)\<rparr>, []))"
    by (simp add: startup_sample)
qed

text \<open>The first pose report after construction, one second later.\<close>

theorem C6_witness:
  "m_state (started (tv 100 0)) = AcquiringCameraPose \<and>
   m_startupData (started (tv 100 0)) = Some (StartupData_new (tv 100 0)) \<and>
   imuInterface (bothAt 101) = Some (tv 101 0, identityQuat) \<and>
   handleVideoTrackerData sample_ext (bothAt 101) (tv 101 0) videoReport (started (tv 100 0)) =
     Inr ((started (tv 100 0))
            \<lparr>m_startupData :=
               Some \<lparr>reports = 1, last_ts = tv 101 0,
                     positionFilter = [(1, (- 1, 0, 0))],
                     orientationFilter = [(1, identityQuat)]\<rparr>\<rparr>, [])"
proof -
  have h: "m_state (started (tv 100 0)) = AcquiringCameraPose \<and>
   m_startupData (started (tv 100 0)) = Some (StartupData_new (tv 100 0)) \<and>
   imuInterface (bothAt 101) = Some (tv 101 0, identityQuat)"
    by (simp add: started_def enterCameraPoseAcquisitionState_def bothAt_def)
  have e: "handleReport sample_ext (tv 101 0) videoReport identityQuat (StartupData_new (tv 100 0)) =
      \<lparr>reports = 1, last_ts = tv 101 0, positionFilter = [(1, (- 1, 0, 0))],
       orientationFilter = [(1, identityQuat)]\<rparr>"
    by (simp add: model_defs sample_defs Let_def)
  from C6_accumulate[of sample_ext "tv 101 0" videoReport identityQuat "StartupData_new (tv 100 0)"
      "started (tv 100 0)" "bothAt 101" "tv 101 0"] h
  show ?thesis by (simp add: e finished_def REQUIRED_SAMPLES_def)
qed

text \<open>
  C7 (as amended). The \<open>dt\<close> fed to both low-pass filters is the elapsed time that
  \<^verbatim>\<open>secondsElapsed\<close> computes from the accumulator's \<open>last\<close> timestamp to the report's,
  replaced by 1 when that time is not positive; the sample is fed and counted either
  way. \<open>last\<close> is the previous accepted report's timestamp, and for the first sample the
  clock reading taken when the accumulator was constructed. The elapsed time is the
  wrapped 32-bit difference of the microsecond fields divided by 1000000, plus the
  wrapped 64-bit difference of the second fields, in doubles.
\<close>

theorem C7_elapsed_time:
  "map fst (positionFilter (handleReport ext ts r q sd)) =
     map fst (positionFilter sd) @
       [if secondsElapsed ext (last_ts sd) ts \<le> 0 then 1 else secondsElapsed ext (last_ts sd) ts] \<and>
   map fst (orientationFilter (handleReport ext ts r q sd)) =
     map fst (orientationFilter sd) @
       [if secondsElapsed ext (last_ts sd) ts \<le> 0 then 1 else secondsElapsed ext (last_ts sd) ts] \<and>
   reports (handleReport ext ts r q sd) = reports sd + 1 \<and>
   last_ts (handleReport ext ts r q sd) = ts \<and>
   m_startupData (started now) = Some (StartupData_new now) \<and>
   last_ts (StartupData_new now) = now \<and> reports (StartupData_new now) = 0 \<and>
   positionFilter (StartupData_new now) = [] \<and> orientationFilter (StartupData_new now) = [] \<and>
   secondsElapsed ext earlier later =
     toDouble ext
       (toDouble ext (real_of_int (sint (microseconds later - microseconds earlier)) / 1000000) +
        toDouble ext (real_of_int (sint (seconds later - seconds earlier))))"
  by (simp add: handleReport_def Let_def OneEuroFilter_filter_def StartupData_new_def
      OneEuroFilter_new_def started_def enterCameraPoseAcquisitionState_def secondsElapsed_def)

text \<open>
  C7 as stated fails: a first pose report stamped half a second after construction is
  fed to both filters with \<open>dt\<close> = 1/2, not 1.
\<close>

theorem C7_counterexample:
  "callback sample_ext (bothAt 100, PoseReport (tv 100 500000) videoReport) (started (tv 100 0)) =
     Inr (\<lparr>m_state = AcquiringCameraPose, m_cTr_top = None,
           m_startupData =
             Some \<lparr>reports = 1, last_ts = tv 100 500000,
                   positionFilter = [(1 / 2, (- 1, 0, 0))],
                   orientationFilter = [(1 / 2, identityQuat)]\<rparr>,
           m_runningData = None\<rparr>, [])"
  by (simp add: model_defs sample_defs Let_def)

text \<open>
  C8. In AcquiringCameraPose a pose report that finds no orientation state returns
  without failure, makes no call, and leaves the controller as it was: same state, same
  accumulator (counter, filters, last timestamp).
\<close>

theorem C8_no_orientation_yet:
  "m_state c = AcquiringCameraPose \<and> imuInterface env = None \<longrightarrow>
     handleVideoTrackerData ext env ts r c = Inr (c, []) \<and>
     callback ext (env, PoseReport ts r) c = Inr (c, [])"
  by (simp add: startup_no_imu)

theorem C8_witness:
  "m_state (started (tv 100 0)) = AcquiringCameraPose \<and> imuInterface noIMU = None \<and>
   handleVideoTrackerData sample_ext noIMU (tv 101 0) videoReport (started (tv 100 0)) =
     Inr (started (tv 100 0), []) \<and>
   m_startupData (started (tv 100 0)) = Some (StartupData_new (tv 100 0))"
proof -
  have h: "m_state (started (tv 100 0)) = AcquiringCameraPose \<and> imuInterface noIMU = None"
    by (simp add: started_def enterCameraPoseAcquisitionState_def noIMU_def)
  from C8_no_orientation_yet[of "started (tv 100 0)" noIMU sample_ext "tv 101 0" videoReport] h
  show ?thesis by (simp add: started_def enterCameraPoseAcquisitionState_def)
qed

text \<open>
  C9. The constructor that does not throw leaves \<open>started now\<close>. After any sequence of
  callbacks from there that ran without failure, the controller in AcquiringCameraPose
  holds the accumulator and no running payload, and the controller in Running holds the
  running payload and no accumulator.
\<close>

theorem C9_one_payload:
  "VideoIMUFusion_new True s0 now = Inr (started now) \<and>
   (run ext (started now) ins = Inr (c, calls) \<longrightarrow>
      (case m_state c of
         AcquiringCameraPose \<Rightarrow> m_startupData c \<noteq> None \<and> m_runningData c = None
       | Running \<Rightarrow> m_runningData c \<noteq> None \<and> m_startupData c = None))"
proof (intro conjI impI)
  show "VideoIMUFusion_new True s0 now = Inr (started now)" by (rule constructed)
  assume "run ext (started now) ins = Inr (c, calls)"
  from run_lifecycle[OF lifecycle_started this]
  show "case m_state c of
         AcquiringCameraPose \<Rightarrow> m_startupData c \<noteq> None \<and> m_runningData c = None
       | Running \<Rightarrow> m_runningData c \<noteq> None \<and> m_startupData c = None"
    by (cases "m_state c") (auto simp: lifecycle_def)
qed

text \<open>After nine pose reports the controller holds the accumulator, after ten the running payload.\<close>

theorem C9_witness:
  "run sample_ext (started (tv 100 0)) (butlast tenPoseReports) = Inr (acquired9, []) \<and>
   m_state acquired9 = AcquiringCameraPose \<and>
   m_startupData acquired9 \<noteq> None \<and> m_runningData acquired9 = None \<and>
   run sample_ext (started (tv 100 0)) tenPoseReports = Inr (running110, []) \<and>
   m_state running110 = Running \<and>
   m_runningData running110 \<noteq> None \<and> m_startupData running110 = None"
proof -
  have h: "run sample_ext (started (tv 100 0)) (butlast tenPoseReports) = Inr (acquired9, [])"
    by (rule run_nine)
  have s: "m_state acquired9 = AcquiringCameraPose" by (simp add: acquired9_def)
  have h': "run sample_ext (started (tv 100 0)) tenPoseReports = Inr (running110, [])"
    by (rule run_ten)
  have s': "m_state running110 = Running" by (simp add: running110_def)
  from C9_one_payload[of AcquiringCameraPose "tv 100 0" sample_ext "butlast tenPoseReports"
      acquired9 "[]"]
    C9_one_payload[of AcquiringCameraPose "tv 100 0" sample_ext tenPoseReports running110 "[]"]
    h s h' s'
  show ?thesis by simp
qed

text \<open>
  C10. An orientation report that reaches a controller not in Running returns at once:
  no failure, no call (so no pose sent), the controller unchanged. A run is therefore
  the same with or without such a report at its head. The accumulator is fed only by
  \<^verbatim>\<open>handleReport\<close>, with the orientation state the pose callback finds (C6).
\<close>

theorem C10_orientation_ignored:
  "m_state c \<noteq> Running \<longrightarrow>
     handleIMUData ext ts r c = Inr (c, []) \<and>
     callback ext (env, OrientationReport ts r) c = Inr (c, []) \<and>
     run ext c ((env, OrientationReport ts r) # ins) = run ext c ins"
  by (auto simp: handleIMUData_idle split: sum.splits)

theorem C10_witness:
  "m_state (started (tv 100 0)) \<noteq> Running \<and>
   handleIMUData sample_ext (tv 101 0) imuReport (started (tv 100 0)) =
     Inr (started (tv 100 0), []) \<and>
   run sample_ext (started (tv 100 0))
     ((bothAt 101, OrientationReport (tv 101 0) imuReport) # tenPoseReports) =
     Inr (running110, [])"
proof -
  have h: "m_state (started (tv 100 0)) \<noteq> Running"
    by (simp add: started_def enterCameraPoseAcquisitionState_def)
  from C10_orientation_ignored[of "started (tv 100 0)" sample_ext "tv 101 0" imuReport
      "bothAt 101" tenPoseReports] h
  show ?thesis by (simp add: run_ten)
qed

end
